theory Spec2Isabelle
  imports Main "HOL-Library.Multiset" "HOL-Library.Sublist"
begin

chapter \<open>The mapping rules page: importer_app/static/js/mapping_data.js\<close>

text \<open>
  The script keeps the rules fetched from the Mapping Rules API in \<open>allRules\<close>, renders
  one table row per rule, and builds from a row the payload it sends back. The theory
  follows the script function by function and keeps its names. State is passed
  explicitly; a thrown exception is a value of a sum type; the widgets of a row are the
  fields of a record; an object literal is the list of its properties.

  Left out: the display of the confirmation dialog and of the override column, the
  timed removal of a message, and the serialisation of a payload by \<open>JSON.stringify\<close>.
\<close>

section \<open>JavaScript primitives\<close>

text \<open>
  Strings are \<open>char list\<close>; every identifier, role and kind name of the program is ASCII.
  A rule id is taken as its image under \<open>String(...)\<close>, which is the only way the
  program ever compares ids; the number \<open>0\<close>, the one id that is falsy where
  \<open>deleteRule\<close> tests it, is taken not to occur.
\<close>

text \<open>\<open>String.prototype.startsWith\<close>.\<close>

fun startsWith :: "string \<Rightarrow> string \<Rightarrow> bool" where
  "startsWith s [] = True"
| "startsWith [] (p # ps) = False"
| "startsWith (c # cs) (p # ps) = (c = p \<and> startsWith cs ps)"

text \<open>\<open>String.prototype.includes\<close>: the needle occurs somewhere as a substring.\<close>

fun includes_str :: "string \<Rightarrow> string \<Rightarrow> bool" where
  "includes_str [] p = (p = [])"
| "includes_str (c # cs) p = (startsWith (c # cs) p \<or> includes_str cs p)"

text \<open>\<open>Array.prototype.join(',')\<close>.\<close>

fun join_comma :: "string list \<Rightarrow> string" where
  "join_comma [] = []"
| "join_comma [x] = x"
| "join_comma (x # y # ys) = x @ CHR '','' # join_comma (y # ys)"

text \<open>\<open>String.prototype.split(',')\<close>: the empty string splits into one empty piece.\<close>

fun split_comma :: "string \<Rightarrow> string list" where
  "split_comma [] = [[]]"
| "split_comma (c # cs) =
     (if c = CHR '','' then [] # split_comma cs
      else (case split_comma cs of
              [] \<Rightarrow> [[c]]
            | w # ws \<Rightarrow> (c # w) # ws))"

text \<open>\<open>String.prototype.toLowerCase\<close>, on ASCII letters.\<close>

definition toLowerCase_char :: "char \<Rightarrow> char" where
  "toLowerCase_char c =
     (case map_of (zip ''ABCDEFGHIJKLMNOPQRSTUVWXYZ'' ''abcdefghijklmnopqrstuvwxyz'') c of
        Some l \<Rightarrow> l
      | None \<Rightarrow> c)"

definition toLowerCase :: "string \<Rightarrow> string" where
  "toLowerCase s = map toLowerCase_char s"

text \<open>The decimal numeral a template literal prints for a counter.\<close>

fun string_of_nat :: "nat \<Rightarrow> string" where
  "string_of_nat n =
     (if n < 10 then [''0123456789'' ! n]
      else string_of_nat (n div 10) @ [''0123456789'' ! (n mod 10)])"

declare string_of_nat.simps [simp del]

text \<open>
  Property lookup \<open>obj[key]\<close> on an object literal. The literal's own properties come
  first; a key that is not an own property is looked up on \<open>Object.prototype\<close>, whose
  members (functions, and the prototype object itself for \<open>__proto__\<close>) are all truthy and
  are neither strings nor numbers; any other key gives \<open>undefined\<close>.
\<close>

definition Object_prototype_members :: "string list" where
  "Object_prototype_members =
     [''constructor'', ''hasOwnProperty'', ''isPrototypeOf'', ''propertyIsEnumerable'',
      ''toLocaleString'', ''toString'', ''valueOf'', ''__proto__'',
      ''__defineGetter__'', ''__defineSetter__'', ''__lookupGetter__'', ''__lookupSetter__'']"

datatype 'a property = Own 'a | Inherited | Undefined

definition obj_get :: "(string \<times> 'a) list \<Rightarrow> string \<Rightarrow> 'a property" where
  "obj_get obj key =
     (case map_of obj key of
        Some v \<Rightarrow> Own v
      | None \<Rightarrow> if key \<in> set Object_prototype_members then Inherited else Undefined)"

text \<open>
  The values a payload property can hold: \<open>null\<close>, a boolean, a string, or a member
  inherited from \<open>Object.prototype\<close> (see \<open>obj_get\<close>).
\<close>

datatype jsval = JNull | JBool bool | JStr string | JInherited

text \<open>\<open>s || null\<close> for a string \<open>s\<close>: the empty string is falsy.\<close>

definition str_or_null :: "string \<Rightarrow> jsval" where
  "str_or_null s = (if s = [] then JNull else JStr s)"

text \<open>\<open>obj[key] || null\<close> for an object literal whose own values are strings.\<close>

definition lookup_or_null :: "(string \<times> string) list \<Rightarrow> string \<Rightarrow> jsval" where
  "lookup_or_null obj key =
     (case obj_get obj key of
        Own s \<Rightarrow> str_or_null s
      | Inherited \<Rightarrow> JInherited
      | Undefined \<Rightarrow> JNull)"

text \<open>
  \<open>a || b\<close> for two nullable strings (\<open>rule.formula_template || rule.static_value\<close>),
  followed by \<open>|| ''\<close> where the program reads it into an input.
\<close>

definition or_else :: "string option \<Rightarrow> string option \<Rightarrow> string option" where
  "or_else a b = (case a of Some s \<Rightarrow> (if s = [] then b else Some s) | None \<Rightarrow> b)"

definition or_empty :: "string option \<Rightarrow> string" where
  "or_empty a = (case a of Some s \<Rightarrow> s | None \<Rightarrow> [])"


section \<open>Constants\<close>

definition API_BASE_URL :: string where
  "API_BASE_URL = ''/admin/mapping_rules/api/metadata''"

definition ALL_ROLES :: "string list" where
  "ALL_ROLES = [''header'', ''item'', ''line'', ''account'', ''ignore'']"

definition ALL_SOURCE_TYPES :: "string list" where
  "ALL_SOURCE_TYPES = [''CSV'', ''CSV Formula'', ''Text Override'', ''Link'']"

text \<open>Options of a \<open>select\<close> are pairs (value, text).\<close>

type_synonym option_data = "string \<times> string"

definition ROLE_DESTINATION_FIELDS :: "(string \<times> option_data list) list" where
  "ROLE_DESTINATION_FIELDS =
     [(''header'',
        [(''id'', ''ID''), (''supplier_id'', ''Supplier ID''),
         (''invoice_number'', ''Invoice Number''), (''invoice_date'', ''Invoice Date''),
         (''due_date'', ''Due Date''), (''total_amount'', ''Total Amount''),
         (''tax_amount'', ''Tax Amount''), (''account_number_id'', ''Account Number ID''),
         (''notes'', ''Notes'')]),
      (''item'',
        [(''id'', ''ID''), (''supplier_id'', ''Supplier ID''),
         (''billing_reference'', ''Billing Reference''),
         (''account_number_id'', ''Account Number ID''), (''audit_date'', ''Audit Date''),
         (''contract_start_date'', ''Contract Start Date''),
         (''contract_end_date'', ''Contract End Date''),
         (''contract_term_in_months'', ''Contract Term In Months''),
         (''review_flag'', ''Review Flag''), (''notes'', ''Notes'')]),
      (''line'',
        [(''id'', ''ID''), (''invoice_header_id'', ''Invoice Header ID''),
         (''item_id'', ''Item ID''), (''unique_reference'', ''Unique Reference''),
         (''description'', ''Description''), (''quantity'', ''Quantity''),
         (''unit_price'', ''Unit Price''), (''total_amount'', ''Total Amount''),
         (''start_date'', ''Start Date''), (''end_date'', ''End Date'')]),
      (''account'',
        [(''id'', ''ID''), (''account_number'', ''Account Number''),
         (''supplier_id'', ''Supplier ID'')]),
      (''ignore'', [('''', ''N/A (No Destination)'')])]"

definition FIELD_ROLE_ORDER :: "(string \<times> int) list" where
  "FIELD_ROLE_ORDER =
     [(''header'', 1), (''item'', 2), (''line'', 3), (''account'', 4), (''ignore'', 5)]"

definition SUPPLIER_FORMULA_FIELDS :: "option_data list" where
  "SUPPLIER_FORMULA_FIELDS =
     [(''Supplier Name'', ''Supplier Name''), (''Supplier Short Name'', ''Supplier Short Name'')]"

text \<open>The two table maps written out in \<open>getRulePayload\<close> and \<open>createRuleRow\<close>.\<close>

definition tableMap :: "(string \<times> string) list" where
  "tableMap =
     [(''header'', ''supplier_invoice_headers''), (''item'', ''supplier_invoice_items''),
      (''line'', ''supplier_invoice_lines''), (''account'', ''supplier_account'')]"

definition tableMap_reverse :: "(string \<times> string) list" where
  "tableMap_reverse =
     [(''supplier_invoice_headers'', ''header''), (''supplier_invoice_items'', ''item''),
      (''supplier_invoice_lines'', ''line''), (''supplier_account'', ''account'')]"


section \<open>Data model\<close>

text \<open>A rule as the Mapping Rules API returns it and \<open>allRules\<close> holds it.\<close>

record rule =
  rule_id :: string
  rule_name :: string
  field_role :: string
  destination_field :: string
  source_type_options :: "string option"
  is_required :: bool
  is_hidden :: bool
  is_base_rule :: bool
  link_table_lookup :: "string option"
  link_field_lookup :: "string option"
  formula_template :: "string option"
  static_value :: "string option"
  default_transformation :: "string option"

text \<open>
  What \<open>updateSourceDetailsDisplay\<close> leaves in a row's \<open>.dynamic-source-input-container\<close>:
  the container is emptied first, so it holds exactly one of these.
  A \<open>select\<close> is its options and its current value.
\<close>

datatype source_details =
    LinkSourceSelect "option_data list" string
  | FormulaInput string "option_data list"
  | TextOverrideInput string
  | CsvColumnSpan
  | DashSpan

text \<open>
  A table row as \<open>getRulePayload\<close> reads it: the value or checked state of each widget
  with a \<open>data-field\<close>, and the content of the dynamic container. Only the
  \<open>is_required\<close> checkbox is read under a guard for its absence.
\<close>

record row =
  dataset_id :: string
  rule_name_input :: string
  field_role_select :: string
  destination_field_select :: string
  source_type_options_select :: "string list"
  source_details :: source_details
  default_transformation_input :: string
  is_required_input :: "bool option"
  is_hidden_input :: bool
  is_base_rule_input :: bool


section \<open>Selects and the source details editor\<close>

text \<open>
  \<open>populateSelect\<close> on a single-choice \<open>select\<close>: the option whose value equals
  \<open>String(selectedValues)\<close> becomes the value; with no such option the browser shows the
  first option, and an empty \<open>select\<close> has the value \<open>''\<close>.
\<close>

definition populateSelect_value :: "option_data list \<Rightarrow> string \<Rightarrow> string" where
  "populateSelect_value options selectedValues =
     (if selectedValues \<in> set (map fst options) then selectedValues
      else (case options of [] \<Rightarrow> [] | opt # _ \<Rightarrow> fst opt))"

text \<open>
  \<open>populateSelect\<close> on a \<open>multiple\<close> select, read back through \<open>selectedOptions\<close>:
  the option values that \<open>selectedValues.includes\<close>, in document order.
\<close>

definition populateSelect_selectedOptions :: "string list \<Rightarrow> string list \<Rightarrow> string list" where
  "populateSelect_selectedOptions options selectedValues =
     filter (\<lambda>v. v \<in> set selectedValues) options"

definition rule_option_text :: "rule \<Rightarrow> string" where
  "rule_option_text r =
     rule_name r @ '' ('' @ field_role r @ ''.'' @ destination_field r @ '')''"

text \<open>
  The filter of \<open>populateLinkSourceDropdown\<close>. The current row is given by its
  \<open>dataset.id\<close>, \<open>None\<close> when no row is passed.
\<close>

definition linkableRules :: "rule list \<Rightarrow> string option \<Rightarrow> rule list" where
  "linkableRules allRules currentRow =
     filter (\<lambda>r.
        let isSelf = (case currentRow of Some i \<Rightarrow> rule_id r = i | None \<Rightarrow> False);
            isNotLinkSource =
              (\<not> (case source_type_options r of
                     Some s \<Rightarrow> s \<noteq> [] \<and> includes_str s ''Link''
                   | None \<Rightarrow> False))
        in \<not> isSelf \<and> isNotLinkSource) allRules"

text \<open>
  \<open>populateLinkSourceDropdown\<close>: \<open>populateSelect\<close> clears the placeholder option, so
  the select holds one option per linkable rule; with none it holds one disabled option
  and its value is \<open>''\<close>.
\<close>

definition populateLinkSourceDropdown ::
  "rule list \<Rightarrow> string list \<Rightarrow> string \<Rightarrow> string option \<Rightarrow> source_details" where
  "populateLinkSourceDropdown allRules selectedSourceTypes currentLinkedRuleId currentRow =
     (if ''link'' \<in> set selectedSourceTypes then
        (let linkable = linkableRules allRules currentRow;
             opts = map (\<lambda>r. (rule_id r, rule_option_text r)) linkable
         in if linkable = [] then LinkSourceSelect [([], ''No available rules'')] []
            else LinkSourceSelect opts (populateSelect_value opts currentLinkedRuleId))
      else LinkSourceSelect [([], ''-- Select Linked Rule --'')] [])"

text \<open>The options \<open>populateFormulaBuilderDropdown\<close> offers.\<close>

definition formulaBuilderRules :: "rule list \<Rightarrow> string option \<Rightarrow> rule list" where
  "formulaBuilderRules allRules currentRow =
     filter (\<lambda>r. rule_id r \<noteq> (case currentRow of Some i \<Rightarrow> i | None \<Rightarrow> ''null'')) allRules"

definition populateFormulaBuilderDropdown :: "rule list \<Rightarrow> string option \<Rightarrow> option_data list" where
  "populateFormulaBuilderDropdown allRules currentRow =
     ([], ''-- Insert Placeholder --'')
     # map (\<lambda>r. (''{'' @ rule_name r @ ''}'',
                  ''Rule: '' @ rule_name r @ '' ('' @ field_role r @ ''.''
                    @ destination_field r @ '')''))
         (formulaBuilderRules allRules currentRow)
     @ map (\<lambda>f. (''{'' @ fst f @ ''}'', ''Supplier: '' @ snd f)) SUPPLIER_FORMULA_FIELDS"

text \<open>
  \<open>updateSourceDetailsDisplay\<close>: the selected kinds are lower-cased and the first
  matching branch builds the editor. The role and destination arguments are unused by
  the source and left out.
\<close>

definition updateSourceDetailsDisplay ::
  "rule list \<Rightarrow> string list \<Rightarrow> string option \<Rightarrow> string \<Rightarrow> string option \<Rightarrow> source_details" where
  "updateSourceDetailsDisplay allRules sourceTypeSelect currentFormulaValue currentLinkedRuleId
      currentRow =
     (let selectedSourceTypes = map toLowerCase sourceTypeSelect in
      if ''link'' \<in> set selectedSourceTypes then
        populateLinkSourceDropdown allRules selectedSourceTypes currentLinkedRuleId currentRow
      else if ''csv formula'' \<in> set selectedSourceTypes then
        FormulaInput (or_empty currentFormulaValue)
          (populateFormulaBuilderDropdown allRules currentRow)
      else if ''text override'' \<in> set selectedSourceTypes then
        TextOverrideInput (or_empty currentFormulaValue)
      else if ''csv'' \<in> set selectedSourceTypes then CsvColumnSpan
      else DashSpan)"


section \<open>The rule payload builder\<close>

text \<open>
  \<open>row.querySelector\<close> for the three dynamic widgets: \<open>None\<close> when the container
  holds another editor.
\<close>

definition link_source_select :: "row \<Rightarrow> string option" where
  "link_source_select r =
     (case source_details r of LinkSourceSelect opts v \<Rightarrow> Some v | _ \<Rightarrow> None)"

definition formula_input :: "row \<Rightarrow> string option" where
  "formula_input r =
     (case source_details r of FormulaInput v opts \<Rightarrow> Some v | _ \<Rightarrow> None)"

definition text_override_input :: "row \<Rightarrow> string option" where
  "text_override_input r =
     (case source_details r of TextOverrideInput v \<Rightarrow> Some v | _ \<Rightarrow> None)"

text \<open>
  The four auxiliary values \<open>getRulePayload\<close> computes before it builds the object:
  (linkTableLookup, linkFieldLookup, formula_template, static_value), all \<open>null\<close> unless
  the branch taken assigns them.
\<close>

definition auxiliary_values :: "rule list \<Rightarrow> row \<Rightarrow> string \<Rightarrow> jsval \<times> jsval \<times> jsval \<times> jsval" where
  "auxiliary_values allRules r sourceTypeOptions =
     (if includes_str sourceTypeOptions ''Link'' then
        (case link_source_select r of
           Some v \<Rightarrow>
             (if v \<noteq> [] then
                (case find (\<lambda>x. rule_id x = v) allRules of
                   Some linkedRule \<Rightarrow>
                     (lookup_or_null tableMap (field_role linkedRule),
                      JStr (destination_field linkedRule), JNull, JNull)
                 | None \<Rightarrow> (JNull, JNull, JNull, JNull))
              else (JNull, JNull, JNull, JNull))
         | None \<Rightarrow> (JNull, JNull, JNull, JNull))
      else if includes_str sourceTypeOptions ''CSV Formula'' then
        (case formula_input r of
           Some v \<Rightarrow> (JNull, JNull, str_or_null v, JNull)
         | None \<Rightarrow> (JNull, JNull, JNull, JNull))
      else if includes_str sourceTypeOptions ''Text Override'' then
        (case text_override_input r of
           Some v \<Rightarrow> (JNull, JNull, JNull, str_or_null v)
         | None \<Rightarrow> (JNull, JNull, JNull, JNull))
      else (JNull, JNull, JNull, JNull))"

text \<open>
  \<open>getRulePayload\<close>: the object literal it returns, as the list of its properties in
  the order written.
\<close>

definition getRulePayload :: "rule list \<Rightarrow> row \<Rightarrow> (string \<times> jsval) list" where
  "getRulePayload allRules r =
     (let isBaseRule = is_base_rule_input r;
          isRequiredInput = is_required_input r;
          sourceTypeOptions = join_comma (source_type_options_select r);
          aux = auxiliary_values allRules r sourceTypeOptions
      in [(''id'',
             if dataset_id r \<noteq> [] \<and> \<not> startsWith (dataset_id r) ''new_''
             then JStr (dataset_id r) else JNull),
          (''rule_name'', JStr (rule_name_input r)),
          (''field_role'', JStr (field_role_select r)),
          (''destination_field'', JStr (destination_field_select r)),
          (''source_type_options'', JStr sourceTypeOptions),
          (''rule_type'', JStr ''user_set''),
          (''is_required'',
             JBool (isBaseRule \<or> (case isRequiredInput of Some c \<Rightarrow> c | None \<Rightarrow> False))),
          (''is_hidden'', JBool (is_hidden_input r)),
          (''is_base_rule'', JBool isBaseRule),
          (''link_table_lookup'', fst aux),
          (''link_field_lookup'', fst (snd aux)),
          (''formula_template'', fst (snd (snd aux))),
          (''static_value'', snd (snd (snd aux))),
          (''default_transformation'', str_or_null (default_transformation_input r))])"

text \<open>Reading a property of a payload.\<close>

definition payload_get :: "(string \<times> jsval) list \<Rightarrow> string \<Rightarrow> jsval option" where
  "payload_get p key = map_of p key"

text \<open>A row used to run the model: an unsaved additional rule with nothing selected.\<close>

definition blank_row :: row where
  "blank_row =
     \<lparr> dataset_id = ''new_1'', rule_name_input = [], field_role_select = ''header'',
       destination_field_select = [], source_type_options_select = [],
       source_details = DashSpan, default_transformation_input = [],
       is_required_input = Some False, is_hidden_input = False, is_base_rule_input = False \<rparr>"


section \<open>Building a row from a rule\<close>

text \<open>An exception thrown by the browser, with the message it carries.\<close>

datatype js_error = TypeError string

definition error_message :: "js_error \<Rightarrow> string" where
  "error_message e = (case e of TypeError m \<Rightarrow> m)"

text \<open>\<open>r.charAt(0).toUpperCase() + r.slice(1)\<close>, the text of a role option.\<close>

definition toUpperCase_char :: "char \<Rightarrow> char" where
  "toUpperCase_char c =
     (case map_of (zip ''abcdefghijklmnopqrstuvwxyz'' ''ABCDEFGHIJKLMNOPQRSTUVWXYZ'') c of
        Some u \<Rightarrow> u
      | None \<Rightarrow> c)"

definition capitalize :: "string \<Rightarrow> string" where
  "capitalize r = (case r of [] \<Rightarrow> [] | c # cs \<Rightarrow> toUpperCase_char c # cs)"

text \<open>
  \<open>populateDestinationFields\<close>, giving the value the destination select ends with.
  \<open>ROLE_DESTINATION_FIELDS[fieldRole] || []\<close> is an inherited member for a role named
  like a member of \<open>Object.prototype\<close>; \<open>populateSelect\<close> then calls \<open>forEach\<close> on
  it, which is not a function there.
\<close>

definition populateDestinationFields :: "string \<Rightarrow> string \<Rightarrow> js_error + string" where
  "populateDestinationFields fieldRole currentDestinationField =
     (case obj_get ROLE_DESTINATION_FIELDS fieldRole of
        Own fs \<Rightarrow> Inr (populateSelect_value fs currentDestinationField)
      | Undefined \<Rightarrow> Inr (populateSelect_value [] currentDestinationField)
      | Inherited \<Rightarrow> Inl (TypeError ''options.forEach is not a function''))"

text \<open>
  The reverse lookup of \<open>createRuleRow\<close>: from the stored table and field pointer to
  the id of the first rule of \<open>allRules\<close> whose role maps to the table and whose
  destination field is the field. \<open>None\<close> is \<open>null\<close>.
\<close>

definition currentLinkedRuleId :: "rule list \<Rightarrow> rule \<Rightarrow> string option" where
  "currentLinkedRuleId allRules rule =
     (case (link_table_lookup rule, link_field_lookup rule) of
        (Some t, Some f) \<Rightarrow>
          (if t \<noteq> [] \<and> f \<noteq> [] then
             (case find (\<lambda>r. obj_get tableMap_reverse t = Own (field_role r)
                             \<and> destination_field r = f) allRules of
                Some sourceRule \<Rightarrow> Some (rule_id sourceRule)
              | None \<Rightarrow> None)
           else None)
      | _ \<Rightarrow> None)"

text \<open>\<open>String(x)\<close> for an id that may be \<open>null\<close>.\<close>

definition String_of_id :: "string option \<Rightarrow> string" where
  "String_of_id i = (case i of Some s \<Rightarrow> s | None \<Rightarrow> ''null'')"

definition selectedSourceTypesArray :: "rule \<Rightarrow> string list" where
  "selectedSourceTypesArray rule =
     (case source_type_options rule of
        Some s \<Rightarrow> (if s = [] then [] else split_comma s)
      | None \<Rightarrow> [])"

text \<open>
  \<open>createRuleRow\<close>. The markup is written through a template literal; the model takes
  the rule's name and transformation as the values of their inputs, which is what the
  browser parses when they hold no quote or ampersand. The event listeners the function
  installs are \<open>handleSourceChange\<close> and the delete click below.
\<close>

definition createRuleRow :: "rule list \<Rightarrow> rule \<Rightarrow> bool \<Rightarrow> js_error + row" where
  "createRuleRow allRules rule isBase =
     (let fieldRoleSelect =
            populateSelect_value (map (\<lambda>r. (r, capitalize r)) ALL_ROLES) (field_role rule)
      in case populateDestinationFields (field_role rule) (destination_field rule) of
           Inl e \<Rightarrow> Inl e
         | Inr destFieldSelect \<Rightarrow>
             (let sourceTypeSelect =
                    populateSelect_selectedOptions ALL_SOURCE_TYPES
                      (selectedSourceTypesArray rule)
              in Inr \<lparr> dataset_id = rule_id rule,
                       rule_name_input = rule_name rule,
                       field_role_select = fieldRoleSelect,
                       destination_field_select = destFieldSelect,
                       source_type_options_select = sourceTypeSelect,
                       source_details =
                         updateSourceDetailsDisplay allRules sourceTypeSelect
                           (or_else (formula_template rule) (static_value rule))
                           (String_of_id (currentLinkedRuleId allRules rule))
                           (Some (rule_id rule)),
                       default_transformation_input = or_empty (default_transformation rule),
                       is_required_input = Some (isBase \<or> is_required rule),
                       is_hidden_input = is_hidden rule,
                       is_base_rule_input = is_base_rule rule \<rparr>))"

text \<open>
  \<open>handleSourceChange\<close>, the listener on the role, destination and source type selects:
  it rebuilds the dynamic container from the payload of the row as it stands.
  \<open>(allRules.find(...) || {}).id\<close> is \<open>undefined\<close> when nothing is found.
\<close>

definition jsval_string :: "jsval \<Rightarrow> string option" where
  "jsval_string v = (case v of JStr s \<Rightarrow> Some s | _ \<Rightarrow> None)"

text \<open>A nullable string of a stored rule, as a value.\<close>

definition jsval_of :: "string option \<Rightarrow> jsval" where
  "jsval_of a = (case a of Some s \<Rightarrow> JStr s | None \<Rightarrow> JNull)"

definition handleSourceChange :: "rule list \<Rightarrow> row \<Rightarrow> row" where
  "handleSourceChange allRules tr =
     (let aux = auxiliary_values allRules tr (join_comma (source_type_options_select tr));
          t = fst aux; f = fst (snd aux);
          linked =
            (if t \<noteq> JNull \<and> f \<noteq> JNull \<and> f \<noteq> JStr [] then
               (case find (\<lambda>r. jsval_of (link_table_lookup r) = t
                               \<and> jsval_of (link_field_lookup r) = f)
                       allRules of
                  Some r \<Rightarrow> rule_id r
                | None \<Rightarrow> ''undefined'')
             else ''null'')
      in tr\<lparr>source_details :=
              updateSourceDetailsDisplay allRules (source_type_options_select tr)
                (or_else (jsval_string (fst (snd (snd aux)))) (jsval_string (snd (snd (snd aux)))))
                linked (Some (dataset_id tr))\<rparr>)"


section \<open>The active source kind\<close>

datatype source_kind = KLink | KCsvFormula | KTextOverride | KCsv

text \<open>The kind whose editor \<open>updateSourceDetailsDisplay\<close> left in the container.\<close>

definition details_kind :: "source_details \<Rightarrow> source_kind option" where
  "details_kind d =
     (case d of
        LinkSourceSelect opts v \<Rightarrow> Some KLink
      | FormulaInput v opts \<Rightarrow> Some KCsvFormula
      | TextOverrideInput v \<Rightarrow> Some KTextOverride
      | CsvColumnSpan \<Rightarrow> Some KCsv
      | DashSpan \<Rightarrow> None)"

text \<open>
  The Source-Strategy Resolver in the spec's words: of the kinds selected, the first in
  the priority Link, CSV Formula, Text Override, CSV; none when no known kind is selected.
\<close>

definition activeKind :: "string list \<Rightarrow> source_kind option" where
  "activeKind kinds =
     (if ''Link'' \<in> set kinds then Some KLink
      else if ''CSV Formula'' \<in> set kinds then Some KCsvFormula
      else if ''Text Override'' \<in> set kinds then Some KTextOverride
      else if ''CSV'' \<in> set kinds then Some KCsv
      else None)"


section \<open>The canonical order of the rule list\<close>

text \<open>
  \<open>FIELD_ROLE_ORDER[role] || 99\<close> as a number: \<open>None\<close> when the lookup yields a member
  of \<open>Object.prototype\<close>, which is truthy and on which subtraction gives \<open>NaN\<close>.
\<close>

definition field_role_order :: "string \<Rightarrow> int option" where
  "field_role_order role =
     (case obj_get FIELD_ROLE_ORDER role of
        Own n \<Rightarrow> Some (if n = 0 then 99 else n)
      | Undefined \<Rightarrow> Some 99
      | Inherited \<Rightarrow> None)"

text \<open>
  The comparator of \<open>renderRules\<close>: the difference of the role orders, and where that is
  \<open>0\<close> or \<open>NaN\<close> the result of \<open>localeCompare\<close> on the names. \<open>localeCompare\<close> is the
  host's collation and is a parameter of the model.
\<close>

definition compareRules :: "(string \<Rightarrow> string \<Rightarrow> int) \<Rightarrow> rule \<Rightarrow> rule \<Rightarrow> int" where
  "compareRules localeCompare a b =
     (case (field_role_order (field_role a), field_role_order (field_role b)) of
        (Some x, Some y) \<Rightarrow>
          (if x - y \<noteq> 0 then x - y else localeCompare (rule_name a) (rule_name b))
      | _ \<Rightarrow> localeCompare (rule_name a) (rule_name b))"

text \<open>
  \<open>Array.prototype.sort\<close> with a comparator: a stable sort, here by insertion. An
  element goes behind those it compares greater than. This is the array the engine
  returns when the comparator is consistent on the elements; under an inconsistent
  comparator the language leaves the order to the engine, and nothing below relies on
  the order given here for such an input.
\<close>

fun sort_insert :: "('a \<Rightarrow> 'a \<Rightarrow> int) \<Rightarrow> 'a \<Rightarrow> 'a list \<Rightarrow> 'a list" where
  "sort_insert cmp x [] = [x]"
| "sort_insert cmp x (y # ys) =
     (if 0 < cmp x y then y # sort_insert cmp x ys else x # y # ys)"

definition array_sort :: "('a \<Rightarrow> 'a \<Rightarrow> int) \<Rightarrow> 'a list \<Rightarrow> 'a list" where
  "array_sort cmp xs = foldr (sort_insert cmp) xs []"

text \<open>
  The role order of the Schema Registry in the spec's words: the known roles in their
  order, every other role last with the value 99.
\<close>

definition roleOrder :: "string \<Rightarrow> int" where
  "roleOrder role = (case map_of FIELD_ROLE_ORDER role of Some n \<Rightarrow> n | None \<Rightarrow> 99)"

text \<open>Ascending by role order, then by name under the host's collation.\<close>

definition canonical_le :: "(string \<Rightarrow> string \<Rightarrow> int) \<Rightarrow> rule \<Rightarrow> rule \<Rightarrow> bool" where
  "canonical_le localeCompare a b =
     (roleOrder (field_role a) < roleOrder (field_role b)
      \<or> (roleOrder (field_role a) = roleOrder (field_role b)
         \<and> localeCompare (rule_name a) (rule_name b) \<le> 0))"

text \<open>
  A collation: comparing is total and transitive. The comparison by character codes is
  one, used to run the model; it agrees with \<open>localeCompare\<close> on the one-letter
  upper-case names of the examples.
\<close>

definition collation :: "(string \<Rightarrow> string \<Rightarrow> int) \<Rightarrow> bool" where
  "collation localeCompare =
     ((\<forall>a b. 0 < localeCompare a b \<longrightarrow> localeCompare b a \<le> 0)
      \<and> (\<forall>a b c. localeCompare a b \<le> 0 \<and> localeCompare b c \<le> 0 \<longrightarrow> localeCompare a c \<le> 0))"

fun codesCompare :: "nat list \<Rightarrow> nat list \<Rightarrow> int" where
  "codesCompare [] [] = 0"
| "codesCompare [] (y # ys) = - 1"
| "codesCompare (x # xs) [] = 1"
| "codesCompare (x # xs) (y # ys) =
     (if x < y then - 1 else if y < x then 1 else codesCompare xs ys)"

definition codeCompare :: "string \<Rightarrow> string \<Rightarrow> int" where
  "codeCompare a b = codesCompare (map of_char a) (map of_char b)"


section \<open>The mutability policy\<close>

text \<open>
  The \<open>dataset.field\<close> of every \<open>input\<close>, \<open>select\<close>, \<open>button\<close> and \<open>textarea\<close> of a
  row, in document order; \<open>None\<close> for an element without a \<open>data-field\<close> (the widgets
  of the dynamic container and the delete button).
\<close>

definition row_elements :: "row \<Rightarrow> string option list" where
  "row_elements r =
     [Some ''rule_name'', Some ''field_role'', Some ''destination_field'',
      Some ''source_type_options'']
     @ (case source_details r of
          LinkSourceSelect opts v \<Rightarrow> [None]
        | FormulaInput v opts \<Rightarrow> [None, None]
        | TextOverrideInput v \<Rightarrow> [None]
        | CsvColumnSpan \<Rightarrow> []
        | DashSpan \<Rightarrow> [])
     @ [Some ''default_transformation'', Some ''is_required'', Some ''is_hidden'',
        Some ''is_base_rule'', None]"

text \<open>The \<open>disabled\<close> flag the loop body of \<open>toggleBaseRuleEditability\<close> assigns.\<close>

definition element_disabled :: "string option \<Rightarrow> bool \<Rightarrow> bool \<Rightarrow> bool" where
  "element_disabled field isBaseRow isOverrideActive =
     (if field = Some ''is_base_rule'' then \<not> isOverrideActive
      else if field = Some ''is_required'' then isBaseRow
      else isBaseRow \<and> \<not> isOverrideActive)"

text \<open>A field is editable when its widget is not disabled.\<close>

definition isFieldEditable :: "string option \<Rightarrow> bool \<Rightarrow> bool \<Rightarrow> bool" where
  "isFieldEditable field isBaseRow isOverrideActive =
     (\<not> element_disabled field isBaseRow isOverrideActive)"


section \<open>The page and its state\<close>

text \<open>
  The variables of the script (\<open>allRules\<close>, \<open>newRuleCounter\<close>, \<open>ruleToDeleteId\<close>) and
  the part of the document it reads and writes. An element the page may lack is an
  option: the \<open>.page-container\<close> with the messages shown in it (newest first), the two
  table bodies with their rows, and the override checkbox. \<open>requests\<close> is the log of the
  calls to \<open>fetch\<close>, oldest first.
\<close>

type_synonym message = "string \<times> string"

datatype request = Request string string "(string \<times> jsval) list option"

record state =
  allRules :: "rule list"
  newRuleCounter :: nat
  ruleToDeleteId :: "string option"
  page_container :: "message list option"
  base_rules_body :: "row list option"
  additional_rules_body :: "row list option"
  chk_super_admin :: "bool option"
  requests :: "request list"

text \<open>
  \<open>showMessage\<close>: nothing without a container. The removal of the message after five
  seconds is not modelled.
\<close>

definition showMessage :: "string \<Rightarrow> string \<Rightarrow> state \<Rightarrow> state" where
  "showMessage msg type st =
     (case page_container st of
        None \<Rightarrow> st
      | Some ms \<Rightarrow> st\<lparr>page_container := Some ((msg, type) # ms)\<rparr>)"

text \<open>
  \<open>toggleBaseRuleEditability\<close>: for every row of the two bodies, base rows first, the
  \<open>disabled\<close> flag it gives each element of the row.
\<close>

definition toggleBaseRuleEditability :: "state \<Rightarrow> (string option \<times> bool) list list" where
  "toggleBaseRuleEditability st =
     (let isOverrideActive = (case chk_super_admin st of Some c \<Rightarrow> c | None \<Rightarrow> False);
          baseRows = (case base_rules_body st of Some rs \<Rightarrow> rs | None \<Rightarrow> []);
          additionalRows = (case additional_rules_body st of Some rs \<Rightarrow> rs | None \<Rightarrow> [])
      in map (\<lambda>r. map (\<lambda>field. (field, element_disabled field True isOverrideActive))
                    (row_elements r)) baseRows
         @ map (\<lambda>r. map (\<lambda>field. (field, element_disabled field False isOverrideActive))
                      (row_elements r)) additionalRows)"

text \<open>
  The \<open>forEach\<close> of \<open>renderRules\<close>: rows are appended one at a time, so an exception
  leaves the rows rendered before it.
\<close>

fun render_rows ::
  "rule list \<Rightarrow> rule list \<Rightarrow> row list \<times> row list \<Rightarrow> js_error option \<times> row list \<times> row list" where
  "render_rows all [] bodies = (None, bodies)"
| "render_rows all (rule # rules) bodies =
     (let isBase = is_base_rule rule in
      case createRuleRow all rule isBase of
        Inl e \<Rightarrow> (Some e, bodies)
      | Inr tr \<Rightarrow>
          render_rows all rules
            (if isBase then (fst bodies @ [tr], snd bodies)
             else (fst bodies, snd bodies @ [tr])))"

text \<open>
  \<open>renderRules(allRules)\<close>: it returns at once when a table body is missing; otherwise
  it sorts the array it is given, which is \<open>allRules\<close> itself, in place, and renders it.
\<close>

definition renderRules :: "(string \<Rightarrow> string \<Rightarrow> int) \<Rightarrow> state \<Rightarrow> js_error option \<times> state" where
  "renderRules localeCompare st =
     (case (base_rules_body st, additional_rules_body st) of
        (Some b, Some a) \<Rightarrow>
          (let rules = array_sort (compareRules localeCompare) (allRules st);
               rendered = render_rows rules rules ([], [])
           in (fst rendered,
               st\<lparr>allRules := rules,
                  base_rules_body := Some (fst (snd rendered)),
                  additional_rules_body := Some (snd (snd rendered))\<rparr>))
      | _ \<Rightarrow> (None, st))"

text \<open>What a call of \<open>fetch\<close> for the rule collection settles with.\<close>

datatype rules_response =
    RulesOk "rule list"
  | RulesNotOk "string option"
  | RulesRejected string

text \<open>\<open>message || fallback\<close> for the \<open>message\<close> of a response body.\<close>

definition message_or :: "string option \<Rightarrow> string \<Rightarrow> string" where
  "message_or m fallback = (case m of Some s \<Rightarrow> (if s = [] then fallback else s) | None \<Rightarrow> fallback)"

text \<open>\<open>fetchRules\<close> up to its \<open>await\<close>, and from there on.\<close>

definition fetchRules :: "state \<Rightarrow> state" where
  "fetchRules st = st\<lparr>requests := requests st @ [Request ''GET'' API_BASE_URL None]\<rparr>"

definition fetchRules_settled ::
  "(string \<Rightarrow> string \<Rightarrow> int) \<Rightarrow> rules_response \<Rightarrow> state \<Rightarrow> state" where
  "fetchRules_settled localeCompare response st =
     (case response of
        RulesOk rules \<Rightarrow>
          (case renderRules localeCompare (st\<lparr>allRules := rules\<rparr>) of
             (None, st') \<Rightarrow> st'
           | (Some e, st') \<Rightarrow> showMessage (''Error: '' @ error_message e) ''error'' st')
      | RulesNotOk m \<Rightarrow>
          showMessage (''Error: '' @ message_or m ''Failed to fetch rules'') ''error'' st
      | RulesRejected e \<Rightarrow> showMessage (''Error: '' @ e) ''error'' st)"


section \<open>Saving all rows\<close>

text \<open>What the \<open>fetch\<close> for one row settles with.\<close>

datatype fetch_outcome =
    ResponseOk
  | ResponseNotOk "string option"
  | FetchRejected string

definition save_request :: "(string \<times> jsval) list \<Rightarrow> request" where
  "save_request payload =
     (case payload_get payload ''id'' of
        Some (JStr i) \<Rightarrow>
          (if i \<noteq> [] then Request ''PUT'' (API_BASE_URL @ ''/'' @ i) (Some payload)
           else Request ''POST'' API_BASE_URL (Some payload))
      | _ \<Rightarrow> Request ''POST'' API_BASE_URL (Some payload))"

text \<open>
  The rest of a row's task once its \<open>fetch\<close> has settled. The \<open>try\<close> block throws
  when the \<open>fetch\<close> was rejected or the response is not ok, with the message given
  here (\<open>None\<close>: nothing is thrown); it counts the success otherwise. The \<open>catch\<close> block
  shows the message under the name in the row.
\<close>

definition save_error_message :: "row \<Rightarrow> fetch_outcome \<Rightarrow> string option" where
  "save_error_message tr outcome =
     (case outcome of
        ResponseOk \<Rightarrow> None
      | ResponseNotOk m \<Rightarrow> Some (message_or m (''Failed to save rule: '' @ rule_name_input tr))
      | FetchRejected e \<Rightarrow> Some e)"

definition save_error_text :: "row \<Rightarrow> string \<Rightarrow> string" where
  "save_error_text tr msg =
     ''Error saving '' @ [CHR 0x22] @ rule_name_input tr @ [CHR 0x22] @ '': '' @ msg"

definition save_settled :: "row \<Rightarrow> fetch_outcome \<Rightarrow> state \<times> nat \<Rightarrow> state \<times> nat" where
  "save_settled tr outcome acc =
     (case save_error_message tr outcome of
        None \<Rightarrow> (fst acc, snd acc + 1)
      | Some msg \<Rightarrow> (showMessage (save_error_text tr msg) ''error'' (fst acc), snd acc))"

text \<open>
  \<open>saveAllChanges\<close>. Mapping over the rows builds every payload and issues every
  request before anything settles. The tasks then settle in an order the network
  decides, given as a list of row positions; \<open>outcomes\<close> says how the \<open>fetch\<close> of each
  position settles. After \<open>Promise.all\<close> the count is reported when positive and
  \<open>fetchRules\<close> is called. The result is the state and \<open>successCount\<close>.
\<close>

definition saveAllChanges :: "(nat \<Rightarrow> fetch_outcome) \<Rightarrow> nat list \<Rightarrow> state \<Rightarrow> state \<times> nat" where
  "saveAllChanges outcomes settle_order st =
     (case (base_rules_body st, additional_rules_body st) of
        (Some b, Some a) \<Rightarrow>
          (let allRows = b @ a;
               payloads = map (getRulePayload (allRules st)) allRows;
               issued = st\<lparr>requests := requests st @ map save_request payloads\<rparr>;
               settled = fold (\<lambda>i. save_settled (allRows ! i) (outcomes i)) settle_order (issued, 0);
               successCount = snd settled;
               reported =
                 (if 0 < successCount then
                    showMessage (''Successfully saved '' @ string_of_nat successCount @ '' rule(s).'')
                      ''success'' (fst settled)
                  else fst settled)
           in (fetchRules reported, successCount))
      | _ \<Rightarrow> (st, 0))"


section \<open>Adding and deleting rows\<close>

text \<open>\<open>addRow\<close>. A new rule carries no link, formula or transformation.\<close>

definition newRule :: "nat \<Rightarrow> bool \<Rightarrow> rule" where
  "newRule n isBase =
     \<lparr> rule_id = ''new_'' @ string_of_nat n, rule_name = [], field_role = [],
       destination_field = [], source_type_options = Some [], is_required = isBase,
       is_hidden = False, is_base_rule = isBase, link_table_lookup = None,
       link_field_lookup = None, formula_template = None, static_value = None,
       default_transformation = None \<rparr>"

definition addRow :: "bool \<Rightarrow> state \<Rightarrow> js_error + state" where
  "addRow isBase st =
     (let n = newRuleCounter st + 1;
          st1 = st\<lparr>newRuleCounter := n\<rparr>
      in case createRuleRow (allRules st1) (newRule n isBase) isBase of
           Inl e \<Rightarrow> Inl e
         | Inr newRow \<Rightarrow>
             Inr (if isBase then
                    (case base_rules_body st1 of
                       Some rows \<Rightarrow> st1\<lparr>base_rules_body := Some (rows @ [newRow])\<rparr>
                     | None \<Rightarrow> st1)
                  else
                    (case additional_rules_body st1 of
                       Some rows \<Rightarrow> st1\<lparr>additional_rules_body := Some (rows @ [newRow])\<rparr>
                     | None \<Rightarrow> st1)))"

text \<open>
  \<open>document.querySelector('tr[data-id=...]')?.remove()\<close>: the first such row of the
  document goes, the base table standing before the additional one.
\<close>

fun remove_first_row :: "string \<Rightarrow> row list \<Rightarrow> row list" where
  "remove_first_row i [] = []"
| "remove_first_row i (tr # trs) = (if dataset_id tr = i then trs else tr # remove_first_row i trs)"

definition remove_row :: "string \<Rightarrow> state \<Rightarrow> state" where
  "remove_row i st =
     (case base_rules_body st of
        Some b \<Rightarrow>
          (if i \<in> set (map dataset_id b) then st\<lparr>base_rules_body := Some (remove_first_row i b)\<rparr>
           else (case additional_rules_body st of
                   Some a \<Rightarrow> st\<lparr>additional_rules_body := Some (remove_first_row i a)\<rparr>
                 | None \<Rightarrow> st))
      | None \<Rightarrow>
          (case additional_rules_body st of
             Some a \<Rightarrow> st\<lparr>additional_rules_body := Some (remove_first_row i a)\<rparr>
           | None \<Rightarrow> st))"

definition hideConfirmationModal :: "state \<Rightarrow> state" where
  "hideConfirmationModal st = st\<lparr>ruleToDeleteId := None\<rparr>"

text \<open>\<open>deleteRule\<close> up to its \<open>await\<close>, and from there on.\<close>

definition deleteRule :: "state \<Rightarrow> state" where
  "deleteRule st =
     (case ruleToDeleteId st of
        None \<Rightarrow> st
      | Some i \<Rightarrow>
          (if i = [] then st
           else if startsWith i ''new_'' then
             hideConfirmationModal
               (showMessage ''New unsaved rule removed.'' ''success'' (remove_row i st))
           else st\<lparr>requests := requests st @ [Request ''DELETE'' (API_BASE_URL @ ''/'' @ i) None]\<rparr>))"

definition deleteRule_settled :: "fetch_outcome \<Rightarrow> state \<Rightarrow> state" where
  "deleteRule_settled outcome st =
     hideConfirmationModal
       (case outcome of
          ResponseOk \<Rightarrow> fetchRules (showMessage ''Rule deleted successfully!'' ''success'' st)
        | ResponseNotOk m \<Rightarrow>
            showMessage (''Error: '' @ message_or m ''Failed to delete rule'') ''error'' st
        | FetchRejected e \<Rightarrow> showMessage (''Error: '' @ e) ''error'' st)"


section \<open>Events\<close>

text \<open>
  What can happen on the page: a call of one of the functions, the settling of a
  request, the operator's click on a delete button or on the override checkbox, and an
  edit of the widgets of the row at a position of a table (any new content under the
  row's id, after which \<open>handleSourceChange\<close> runs). A call of \<open>saveAllChanges\<close> is
  taken with the settling of its saves as one event; the fetch it ends with settles as
  an event of its own.
\<close>

datatype event =
    FetchRules
  | FetchRulesSettled rules_response
  | SaveAllChanges "nat \<Rightarrow> fetch_outcome" "nat list"
  | AddRow bool
  | ClickDelete string
  | DeleteRule
  | DeleteRuleSettled fetch_outcome
  | HideConfirmationModal
  | ClickOverride bool
  | EditRow bool nat row

definition edited :: "rule list \<Rightarrow> nat \<Rightarrow> row \<Rightarrow> row list \<Rightarrow> row list" where
  "edited all k tr rows =
     (if k < length rows
      then rows[k := handleSourceChange all (tr\<lparr>dataset_id := dataset_id (rows ! k)\<rparr>)]
      else rows)"

definition edit_row :: "bool \<Rightarrow> nat \<Rightarrow> row \<Rightarrow> state \<Rightarrow> state" where
  "edit_row inBase k tr st =
     (if inBase then
        (case base_rules_body st of
           Some rows \<Rightarrow> st\<lparr>base_rules_body := Some (edited (allRules st) k tr rows)\<rparr>
         | None \<Rightarrow> st)
      else
        (case additional_rules_body st of
           Some rows \<Rightarrow> st\<lparr>additional_rules_body := Some (edited (allRules st) k tr rows)\<rparr>
         | None \<Rightarrow> st))"

definition step :: "(string \<Rightarrow> string \<Rightarrow> int) \<Rightarrow> event \<Rightarrow> state \<Rightarrow> state" where
  "step localeCompare e st =
     (case e of
        FetchRules \<Rightarrow> fetchRules st
      | FetchRulesSettled response \<Rightarrow> fetchRules_settled localeCompare response st
      | SaveAllChanges outcomes settle_order \<Rightarrow> fst (saveAllChanges outcomes settle_order st)
      | AddRow isBase \<Rightarrow>
          (case addRow isBase st of
             Inl err \<Rightarrow> st\<lparr>newRuleCounter := newRuleCounter st + 1\<rparr>
           | Inr st' \<Rightarrow> st')
      | ClickDelete i \<Rightarrow> st\<lparr>ruleToDeleteId := Some i\<rparr>
      | DeleteRule \<Rightarrow> deleteRule st
      | DeleteRuleSettled outcome \<Rightarrow> deleteRule_settled outcome st
      | HideConfirmationModal \<Rightarrow> hideConfirmationModal st
      | ClickOverride c \<Rightarrow>
          (case chk_super_admin st of Some old \<Rightarrow> st\<lparr>chk_super_admin := Some c\<rparr> | None \<Rightarrow> st)
      | EditRow inBase k tr \<Rightarrow> edit_row inBase k tr st)"

fun run :: "(string \<Rightarrow> string \<Rightarrow> int) \<Rightarrow> event list \<Rightarrow> state \<Rightarrow> state" where
  "run localeCompare [] st = st"
| "run localeCompare (e # es) st = run localeCompare es (step localeCompare e st)"

text \<open>
  The page as loaded: the script's variables at their initial values, and the document
  of the rules page, which has the message container, both table bodies, still empty,
  and the override checkbox.
\<close>

definition initial_state :: "bool \<Rightarrow> state" where
  "initial_state override =
     \<lparr> allRules = [], newRuleCounter = 0, ruleToDeleteId = None, page_container = Some [],
       base_rules_body = Some [], additional_rules_body = Some [],
       chk_super_admin = Some override, requests = [] \<rparr>"


text \<open>The rules an event delivers: those of a successful response for the rule collection.\<close>

definition fetched_rules :: "event \<Rightarrow> rule list" where
  "fetched_rules e = (case e of FetchRulesSettled (RulesOk rules) \<Rightarrow> rules | _ \<Rightarrow> [])"

text \<open>The id of a transient rule, as \<open>getRulePayload\<close> and \<open>deleteRule\<close> recognise it.\<close>

definition transient_id :: "string \<Rightarrow> bool" where
  "transient_id i = startsWith i ''new_''"


section \<open>Inputs used to run the model\<close>

text \<open>A persisted rule with the given id, role, destination and name, sourced from a column.\<close>

definition csv_rule :: "string \<Rightarrow> string \<Rightarrow> string \<Rightarrow> string \<Rightarrow> rule" where
  "csv_rule i role dest name =
     \<lparr> rule_id = i, rule_name = name, field_role = role, destination_field = dest,
       source_type_options = Some ''CSV'', is_required = False, is_hidden = False,
       is_base_rule = False, link_table_lookup = None, link_field_lookup = None,
       formula_template = None, static_value = None, default_transformation = None \<rparr>"

text \<open>
  A row of the persisted rule 7 whose source select has the given kinds selected and
  whose container holds the given editor.
\<close>

definition row_with :: "string list \<Rightarrow> source_details \<Rightarrow> row" where
  "row_with kinds details =
     blank_row\<lparr>dataset_id := ''7'', source_type_options_select := kinds, source_details := details\<rparr>"

text \<open>A stored rule that sources via Link and holds the given table and field pointer.\<close>

definition link_rule :: "string \<Rightarrow> string option \<Rightarrow> string option \<Rightarrow> rule" where
  "link_rule i t f =
     (csv_rule i ''line'' ''description'' ''Linked'')\<lparr>source_type_options := Some ''Link'',
        link_table_lookup := t, link_field_lookup := f\<rparr>"

text \<open>
  The link picker of a row with the given rule chosen, and a page showing one base row
  and one additional row.
\<close>

definition link_row :: "string \<Rightarrow> row" where
  "link_row v = row_with [''Link''] (LinkSourceSelect [(v, ''A (header.id)'')] v)"

definition two_row_page :: "bool \<Rightarrow> state" where
  "two_row_page override =
     (initial_state override)\<lparr>
        base_rules_body := Some [row_with [''CSV''] CsvColumnSpan],
        additional_rules_body := Some [row_with [''Text Override''] (TextOverrideInput ''n/a'')]\<rparr>"

text \<open>
  Three stored rules, the second sourced via Link, as a response delivers them; and a
  response that holds a rule whose role is named like a member of \<open>Object.prototype\<close>.
\<close>

definition three_rules :: "rule list" where
  "three_rules =
     [csv_rule ''1'' ''line'' ''quantity'' ''B'',
      link_rule ''2'' (Some ''supplier_invoice_lines'') (Some ''quantity''),
      csv_rule ''3'' ''header'' ''id'' ''A'']"

definition inherited_role_rules :: "rule list" where
  "inherited_role_rules =
     [csv_rule ''1'' ''constructor'' ''id'' ''A'', csv_rule ''2'' ''header'' ''id'' ''B'']"



text \<open>A page whose document lacks the base table body.\<close>

definition page_without_base_body :: state where
  "page_without_base_body = (initial_state False)\<lparr>base_rules_body := None\<rparr>"


section \<open>Facts about the primitives\<close>

text \<open>
  On kinds taken from \<open>ALL_SOURCE_TYPES\<close>, the substring tests of \<open>getRulePayload\<close> on
  the joined string and the tests of \<open>updateSourceDetailsDisplay\<close> on the lower-cased
  array are membership tests.
\<close>

lemma includes_join_step:
  assumes "x \<in> set ALL_SOURCE_TYPES" "p \<in> {''Link'', ''CSV Formula'', ''Text Override''}"
  shows "includes_str (x @ CHR '','' # rest) p = (x = p \<or> includes_str rest p)"
  using assms by (auto simp: ALL_SOURCE_TYPES_def)

lemma includes_single:
  assumes "x \<in> set ALL_SOURCE_TYPES" "p \<in> {''Link'', ''CSV Formula'', ''Text Override''}"
  shows "includes_str x p = (x = p)"
  using assms by (auto simp: ALL_SOURCE_TYPES_def)

lemma includes_join_comma:
  assumes "set sel \<subseteq> set ALL_SOURCE_TYPES" "p \<in> {''Link'', ''CSV Formula'', ''Text Override''}"
  shows "includes_str (join_comma sel) p = (p \<in> set sel)"
  using assms
proof (induction sel rule: join_comma.induct)
  case 1
  then show ?case by auto
next
  case (2 x)
  then show ?case using includes_single [of x p] by auto
next
  case (3 x y ys)
  then show ?case using includes_join_step [of x p "join_comma (y # ys)"] by auto
qed

lemma toLowerCase_kinds:
  "toLowerCase ''CSV'' = ''csv''" "toLowerCase ''CSV Formula'' = ''csv formula''"
  "toLowerCase ''Text Override'' = ''text override''" "toLowerCase ''Link'' = ''link''"
  by (simp_all add: toLowerCase_def toLowerCase_char_def)

lemma toLowerCase_member:
  assumes "set sel \<subseteq> set ALL_SOURCE_TYPES" "k \<in> set ALL_SOURCE_TYPES"
  shows "(toLowerCase k \<in> set (map toLowerCase sel)) = (k \<in> set sel)"
proof
  assume "toLowerCase k \<in> set (map toLowerCase sel)"
  then obtain x where x: "x \<in> set sel" "toLowerCase x = toLowerCase k" by auto
  with assms have "x \<in> set ALL_SOURCE_TYPES" by auto
  with x(2) assms(2) have "x = k"
    by (auto simp: ALL_SOURCE_TYPES_def toLowerCase_kinds)
  with x show "k \<in> set sel" by simp
next
  assume "k \<in> set sel"
  then show "toLowerCase k \<in> set (map toLowerCase sel)" by auto
qed

lemma selectedOptions_set:
  "set (populateSelect_selectedOptions ALL_SOURCE_TYPES ks) = set ks \<inter> set ALL_SOURCE_TYPES"
  by (auto simp: populateSelect_selectedOptions_def)

text \<open>The editor shown follows the priority of the kinds, on a selection of known kinds.\<close>

lemma details_kind_populateLinkSourceDropdown:
  "details_kind (populateLinkSourceDropdown store lowered linked cur) = Some KLink"
  by (simp add: populateLinkSourceDropdown_def details_kind_def Let_def)

lemma details_kind_updateSourceDetailsDisplay:
  assumes "set sel \<subseteq> set ALL_SOURCE_TYPES"
  shows "details_kind (updateSourceDetailsDisplay store sel f linked cur) = activeKind sel"
proof -
  have m: "(''link'' \<in> set (map toLowerCase sel)) = (''Link'' \<in> set sel)"
    "(''csv formula'' \<in> set (map toLowerCase sel)) = (''CSV Formula'' \<in> set sel)"
    "(''text override'' \<in> set (map toLowerCase sel)) = (''Text Override'' \<in> set sel)"
    "(''csv'' \<in> set (map toLowerCase sel)) = (''CSV'' \<in> set sel)"
    using toLowerCase_member [OF assms, of "''Link''"]
      toLowerCase_member [OF assms, of "''CSV Formula''"]
      toLowerCase_member [OF assms, of "''Text Override''"]
      toLowerCase_member [OF assms, of "''CSV''"]
    by (simp_all add: toLowerCase_kinds ALL_SOURCE_TYPES_def)
  show ?thesis
  proof (cases "''Link'' \<in> set sel")
    case True
    then show ?thesis
      unfolding updateSourceDetailsDisplay_def Let_def m activeKind_def
      by (simp add: details_kind_populateLinkSourceDropdown)
  next
    case False
    then show ?thesis
      unfolding updateSourceDetailsDisplay_def Let_def m activeKind_def
      by (simp add: details_kind_def)
  qed
qed

text \<open>The payload's properties by name.\<close>

lemma payload_is_required:
  "payload_get (getRulePayload store r) ''is_required'' =
     Some (JBool (is_base_rule_input r
                  \<or> (case is_required_input r of Some c \<Rightarrow> c | None \<Rightarrow> False)))"
  by (simp add: payload_get_def getRulePayload_def Let_def)

lemma payload_auxiliary:
  "payload_get (getRulePayload store tr) ''link_table_lookup''
     = Some (fst (auxiliary_values store tr (join_comma (source_type_options_select tr))))"
  "payload_get (getRulePayload store tr) ''link_field_lookup''
     = Some (fst (snd (auxiliary_values store tr (join_comma (source_type_options_select tr)))))"
  "payload_get (getRulePayload store tr) ''formula_template''
     = Some (fst (snd (snd (auxiliary_values store tr (join_comma (source_type_options_select tr))))))"
  "payload_get (getRulePayload store tr) ''static_value''
     = Some (snd (snd (snd (auxiliary_values store tr (join_comma (source_type_options_select tr))))))"
  by (simp_all add: payload_get_def getRulePayload_def Let_def)

text \<open>The two table maps are inverse to each other on the four roles they cover.\<close>

lemma tableMap_round_trip:
  assumes "role \<in> {''header'', ''item'', ''line'', ''account''}"
  shows "\<exists>t. t \<noteq> [] \<and> lookup_or_null tableMap role = JStr t
              \<and> obj_get tableMap_reverse t = Own role"
proof -
  from assms consider "role = ''header''" | "role = ''item''" | "role = ''line''"
    | "role = ''account''"
    by blast
  then show ?thesis
  proof cases
    case 1
    then show ?thesis
      by (intro exI [of _ "''supplier_invoice_headers''"])
         (simp add: lookup_or_null_def obj_get_def tableMap_def tableMap_reverse_def str_or_null_def)
  next
    case 2
    then show ?thesis
      by (intro exI [of _ "''supplier_invoice_items''"])
         (simp add: lookup_or_null_def obj_get_def tableMap_def tableMap_reverse_def str_or_null_def)
  next
    case 3
    then show ?thesis
      by (intro exI [of _ "''supplier_invoice_lines''"])
         (simp add: lookup_or_null_def obj_get_def tableMap_def tableMap_reverse_def str_or_null_def)
  next
    case 4
    then show ?thesis
      by (intro exI [of _ "''supplier_account''"])
         (simp add: lookup_or_null_def obj_get_def tableMap_def tableMap_reverse_def str_or_null_def)
  qed
qed


section \<open>Facts about sorting\<close>

lemma mset_sort_insert: "mset (sort_insert cmp x ys) = add_mset x (mset ys)"
  by (induction ys) simp_all

lemma mset_array_sort: "mset (array_sort cmp xs) = mset xs"
  unfolding array_sort_def by (induction xs) (simp_all add: mset_sort_insert)

lemma set_array_sort: "set (array_sort cmp xs) = set xs"
  using mset_array_sort [of cmp xs] by (metis set_mset_mset)

lemma set_sort_insert: "set (sort_insert cmp x ys) = insert x (set ys)"
  using mset_sort_insert [of cmp x ys] by (metis set_mset_mset set_mset_add_mset_insert)

text \<open>
  Inserting keeps a list ordered by \<open>R\<close> when, on the elements at hand, the comparator
  decides \<open>R\<close> and \<open>R\<close> is transitive.
\<close>

lemma sorted_wrt_sort_insert:
  assumes "sorted_wrt R ys" and "x \<in> A" and "set ys \<subseteq> A"
    and dec: "\<And>a b. a \<in> A \<Longrightarrow> b \<in> A \<Longrightarrow> (0 < cmp a b \<longrightarrow> R b a) \<and> (\<not> 0 < cmp a b \<longrightarrow> R a b)"
    and trans: "\<And>a b c. a \<in> A \<Longrightarrow> b \<in> A \<Longrightarrow> c \<in> A \<Longrightarrow> R a b \<Longrightarrow> R b c \<Longrightarrow> R a c"
  shows "sorted_wrt R (sort_insert cmp x ys)"
  using assms(1,3)
proof (induction ys)
  case Nil
  then show ?case by simp
next
  case (Cons y ys)
  have yA: "y \<in> A" and ysA: "set ys \<subseteq> A" using Cons.prems(2) by simp_all
  show ?case
  proof (cases "0 < cmp x y")
    case True
    then have "R y x" using dec [OF assms(2) yA] by simp
    moreover have "\<forall>z \<in> set ys. R y z" using Cons.prems(1) by simp
    moreover have "sorted_wrt R (sort_insert cmp x ys)"
      using Cons.IH Cons.prems(1) ysA by simp
    ultimately show ?thesis using True by (simp add: set_sort_insert)
  next
    case False
    then have xy: "R x y" using dec [OF assms(2) yA] by simp
    have "\<forall>z \<in> set ys. R x z"
    proof
      fix z assume z: "z \<in> set ys"
      then have "R y z" using Cons.prems(1) by simp
      with xy show "R x z" using trans [OF assms(2) yA] z ysA by blast
    qed
    with xy False Cons.prems(1) show ?thesis by simp
  qed
qed

lemma sorted_wrt_array_sort:
  assumes "set xs \<subseteq> A"
    and dec: "\<And>a b. a \<in> A \<Longrightarrow> b \<in> A \<Longrightarrow> (0 < cmp a b \<longrightarrow> R b a) \<and> (\<not> 0 < cmp a b \<longrightarrow> R a b)"
    and trans: "\<And>a b c. a \<in> A \<Longrightarrow> b \<in> A \<Longrightarrow> c \<in> A \<Longrightarrow> R a b \<Longrightarrow> R b c \<Longrightarrow> R a c"
  shows "sorted_wrt R (array_sort cmp xs)"
  using assms(1)
proof (induction xs)
  case Nil
  then show ?case by (simp add: array_sort_def)
next
  case (Cons x xs)
  have "sorted_wrt R (array_sort cmp xs)" using Cons by simp
  moreover have "set (array_sort cmp xs) \<subseteq> A" using Cons.prems by (simp add: set_array_sort)
  moreover have "x \<in> A" using Cons.prems by simp
  ultimately have "sorted_wrt R (sort_insert cmp x (array_sort cmp xs))"
    using sorted_wrt_sort_insert [of R "array_sort cmp xs" x A cmp] dec trans by blast
  then show ?case by (simp add: array_sort_def)
qed

text \<open>
  A role that is no member name of \<open>Object.prototype\<close> has the order the Schema
  Registry gives it.
\<close>

lemma field_role_order_known:
  assumes "role \<notin> set Object_prototype_members"
  shows "field_role_order role = Some (roleOrder role)"
proof (cases "map_of FIELD_ROLE_ORDER role")
  case None
  with assms show ?thesis
    by (simp add: field_role_order_def roleOrder_def obj_get_def)
next
  case (Some n)
  then have "(role, n) \<in> set FIELD_ROLE_ORDER" by (rule map_of_SomeD)
  then have "n \<noteq> 0" by (auto simp: FIELD_ROLE_ORDER_def)
  with Some show ?thesis
    by (simp add: field_role_order_def roleOrder_def obj_get_def)
qed

lemma roleOrder_unknown:
  assumes "role \<notin> set ALL_ROLES"
  shows "roleOrder role = 99"
proof -
  have "map_of FIELD_ROLE_ORDER role = None"
    using assms by (simp add: map_of_eq_None_iff FIELD_ROLE_ORDER_def ALL_ROLES_def)
  then show ?thesis by (simp add: roleOrder_def)
qed

lemma roleOrder_known:
  assumes "role \<in> set ALL_ROLES"
  shows "roleOrder role < 99"
  using assms by (auto simp: ALL_ROLES_def roleOrder_def FIELD_ROLE_ORDER_def)

lemma compareRules_decides:
  assumes "collation lc"
    and "field_role a \<notin> set Object_prototype_members"
    and "field_role b \<notin> set Object_prototype_members"
  shows "(0 < compareRules lc a b \<longrightarrow> canonical_le lc b a)
         \<and> (\<not> 0 < compareRules lc a b \<longrightarrow> canonical_le lc a b)"
proof -
  have tot: "\<And>u v. 0 < lc u v \<Longrightarrow> lc v u \<le> 0"
    using assms(1) unfolding collation_def by blast
  show ?thesis
    unfolding compareRules_def canonical_le_def
      field_role_order_known [OF assms(2)] field_role_order_known [OF assms(3)]
    using tot [of "rule_name a" "rule_name b"] by auto
qed

lemma canonical_le_trans:
  assumes "collation lc" and "canonical_le lc a b" and "canonical_le lc b c"
  shows "canonical_le lc a c"
proof -
  have tr: "\<And>u v w. lc u v \<le> 0 \<Longrightarrow> lc v w \<le> 0 \<Longrightarrow> lc u w \<le> 0"
    using assms(1) unfolding collation_def by blast
  show ?thesis
    using assms(2,3) tr [of "rule_name a" "rule_name b" "rule_name c"]
    unfolding canonical_le_def by auto
qed

lemma sorted_canonical:
  assumes "collation lc"
    and "\<forall>r \<in> set rules. field_role r \<notin> set Object_prototype_members"
  shows "sorted_wrt (canonical_le lc) (array_sort (compareRules lc) rules)"
proof (rule sorted_wrt_array_sort [where A = "{r. field_role r \<notin> set Object_prototype_members}"])
  show "set rules \<subseteq> {r. field_role r \<notin> set Object_prototype_members}"
    using assms(2) by blast
next
  fix a b :: rule
  assume "a \<in> {r. field_role r \<notin> set Object_prototype_members}"
    and "b \<in> {r. field_role r \<notin> set Object_prototype_members}"
  then show "(0 < compareRules lc a b \<longrightarrow> canonical_le lc b a)
             \<and> (\<not> 0 < compareRules lc a b \<longrightarrow> canonical_le lc a b)"
    using compareRules_decides [OF assms(1)] by simp
next
  fix a b c :: rule
  assume "canonical_le lc a b" and "canonical_le lc b c"
  then show "canonical_le lc a c"
    using canonical_le_trans [OF assms(1)] by blast
qed

text \<open>The comparison by character codes is a collation.\<close>

lemma codesCompare_total: "0 < codesCompare a b \<Longrightarrow> codesCompare b a \<le> 0"
proof (induction a b rule: codesCompare.induct)
  case (4 x xs y ys)
  then show ?case by (cases "x < y"; cases "y < x") simp_all
qed simp_all

lemma codesCompare_trans:
  "codesCompare a b \<le> 0 \<Longrightarrow> codesCompare b c \<le> 0 \<Longrightarrow> codesCompare a c \<le> 0"
proof (induction a b arbitrary: c rule: codesCompare.induct)
  case 1
  then show ?case by simp
next
  case (2 y ys)
  then show ?case by (cases c) simp_all
next
  case (3 x xs)
  then show ?case by simp
next
  case (4 x xs y ys)
  note IH = "4.IH" and ab = "4.prems"(1) and bc = "4.prems"(2)
  show ?case
  proof (cases c)
    case Nil
    with bc show ?thesis by simp
  next
    case (Cons z zs)
    from ab have xy: "x \<le> y" by (cases "x < y"; cases "y < x") simp_all
    from bc Cons have yz: "y \<le> z" by (cases "y < z"; cases "z < y") simp_all
    show ?thesis
    proof (cases "x < z")
      case True
      with Cons show ?thesis by simp
    next
      case False
      with xy yz have e: "x = y" "y = z" by simp_all
      from ab e have 1: "codesCompare xs ys \<le> 0" by simp
      from bc e Cons have 2: "codesCompare ys zs \<le> 0" by simp
      from e have "\<not> x < y" "\<not> y < x" by simp_all
      from IH [OF this 1 2] e Cons show ?thesis by simp
    qed
  qed
qed

lemma collation_codeCompare: "collation codeCompare"
  unfolding collation_def codeCompare_def
  using codesCompare_total codesCompare_trans by blast

lemma codeCompare_examples:
  "codeCompare ''A'' ''B'' = - 1" "codeCompare ''B'' ''A'' = 1" "codeCompare ''A'' ''A'' = 0"
  "codeCompare ''B'' ''B'' = 0" "codeCompare ''A'' ''C'' = - 1" "codeCompare ''C'' ''A'' = 1"
  "codeCompare ''B'' ''C'' = - 1" "codeCompare ''C'' ''B'' = 1" "codeCompare ''C'' ''C'' = 0"
  by (simp_all add: codeCompare_def)


section \<open>What each operation leaves unchanged\<close>

lemma showMessage_frame:
  "allRules (showMessage m t st) = allRules st"
  "base_rules_body (showMessage m t st) = base_rules_body st"
  "additional_rules_body (showMessage m t st) = additional_rules_body st"
  "requests (showMessage m t st) = requests st"
  by (simp_all add: showMessage_def split: option.splits)

lemma save_settled_frame:
  "allRules (fst (save_settled tr outcome acc)) = allRules (fst acc)"
  "base_rules_body (fst (save_settled tr outcome acc)) = base_rules_body (fst acc)"
  "additional_rules_body (fst (save_settled tr outcome acc)) = additional_rules_body (fst acc)"
  "requests (fst (save_settled tr outcome acc)) = requests (fst acc)"
  by (simp_all add: save_settled_def showMessage_frame split: option.splits)

lemma fold_save_settled_frame:
  "allRules (fst (fold (\<lambda>i. save_settled (rows ! i) (outcomes i)) order acc)) = allRules (fst acc)
   \<and> base_rules_body (fst (fold (\<lambda>i. save_settled (rows ! i) (outcomes i)) order acc))
       = base_rules_body (fst acc)
   \<and> additional_rules_body (fst (fold (\<lambda>i. save_settled (rows ! i) (outcomes i)) order acc))
       = additional_rules_body (fst acc)
   \<and> requests (fst (fold (\<lambda>i. save_settled (rows ! i) (outcomes i)) order acc))
       = requests (fst acc)"
  by (induction order arbitrary: acc) (simp_all add: save_settled_frame)

lemma saveAllChanges_frame:
  "allRules (fst (saveAllChanges outcomes order st)) = allRules st"
  "base_rules_body (fst (saveAllChanges outcomes order st)) = base_rules_body st"
  "additional_rules_body (fst (saveAllChanges outcomes order st)) = additional_rules_body st"
  by (simp_all add: saveAllChanges_def Let_def fetchRules_def showMessage_frame
        fold_save_settled_frame split: option.splits)

lemma addRow_frame:
  assumes "addRow isBase st = Inr st'"
  shows "allRules st' = allRules st"
    and "(base_rules_body st' = None) = (base_rules_body st = None)"
    and "(additional_rules_body st' = None) = (additional_rules_body st = None)"
  using assms
  by (auto simp: addRow_def Let_def split: sum.splits option.splits if_splits)

lemma remove_row_frame:
  "allRules (remove_row i st) = allRules st"
  "(base_rules_body (remove_row i st) = None) = (base_rules_body st = None)"
  "(additional_rules_body (remove_row i st) = None) = (additional_rules_body st = None)"
  by (simp_all add: remove_row_def split: option.splits)

lemma deleteRule_frame:
  "allRules (deleteRule st) = allRules st"
  "(base_rules_body (deleteRule st) = None) = (base_rules_body st = None)"
  "(additional_rules_body (deleteRule st) = None) = (additional_rules_body st = None)"
  by (simp_all add: deleteRule_def hideConfirmationModal_def showMessage_frame remove_row_frame
        split: option.splits)

lemma deleteRule_settled_frame:
  "allRules (deleteRule_settled outcome st) = allRules st"
  "base_rules_body (deleteRule_settled outcome st) = base_rules_body st"
  "additional_rules_body (deleteRule_settled outcome st) = additional_rules_body st"
  by (simp_all add: deleteRule_settled_def hideConfirmationModal_def fetchRules_def
        showMessage_frame split: fetch_outcome.splits)

lemma edit_row_frame:
  "allRules (edit_row inBase k tr st) = allRules st"
  "(base_rules_body (edit_row inBase k tr st) = None) = (base_rules_body st = None)"
  "(additional_rules_body (edit_row inBase k tr st) = None) = (additional_rules_body st = None)"
  by (simp_all add: edit_row_def Let_def split: option.splits)

lemma renderRules_allRules:
  "allRules (snd (renderRules lc st)) =
     (if base_rules_body st \<noteq> None \<and> additional_rules_body st \<noteq> None
      then array_sort (compareRules lc) (allRules st) else allRules st)"
  by (simp add: renderRules_def Let_def split: option.splits)

lemma renderRules_bodies:
  "(base_rules_body (snd (renderRules lc st)) = None) = (base_rules_body st = None)"
  "(additional_rules_body (snd (renderRules lc st)) = None) = (additional_rules_body st = None)"
  by (simp_all add: renderRules_def Let_def split: option.splits)

lemma fetchRules_settled_allRules:
  "allRules (fetchRules_settled lc response st) =
     (case response of
        RulesOk rules \<Rightarrow>
          (if base_rules_body st \<noteq> None \<and> additional_rules_body st \<noteq> None
           then array_sort (compareRules lc) rules else rules)
      | _ \<Rightarrow> allRules st)"
proof (cases response)
  case (RulesOk rules)
  obtain err st' where r: "renderRules lc (st\<lparr>allRules := rules\<rparr>) = (err, st')"
    by (cases "renderRules lc (st\<lparr>allRules := rules\<rparr>)")
  have "allRules st' =
     (if base_rules_body st \<noteq> None \<and> additional_rules_body st \<noteq> None
      then array_sort (compareRules lc) rules else rules)"
    using renderRules_allRules [of lc "st\<lparr>allRules := rules\<rparr>"] r by simp
  with RulesOk r show ?thesis
    by (cases err) (simp_all add: fetchRules_settled_def showMessage_frame)
qed (simp_all add: fetchRules_settled_def showMessage_frame)

lemma fetchRules_settled_bodies:
  "(base_rules_body (fetchRules_settled lc response st) = None) = (base_rules_body st = None)"
  "(additional_rules_body (fetchRules_settled lc response st) = None)
     = (additional_rules_body st = None)"
proof -
  have "(base_rules_body (fetchRules_settled lc response st) = None) = (base_rules_body st = None)
        \<and> (additional_rules_body (fetchRules_settled lc response st) = None)
            = (additional_rules_body st = None)"
  proof (cases response)
    case (RulesOk rules)
    obtain err st' where r: "renderRules lc (st\<lparr>allRules := rules\<rparr>) = (err, st')"
      by (cases "renderRules lc (st\<lparr>allRules := rules\<rparr>)")
    have "(base_rules_body st' = None) = (base_rules_body st = None)"
      "(additional_rules_body st' = None) = (additional_rules_body st = None)"
      using renderRules_bodies [of lc "st\<lparr>allRules := rules\<rparr>"] r by simp_all
    with RulesOk r show ?thesis
      by (cases err) (simp_all add: fetchRules_settled_def showMessage_frame)
  qed (simp_all add: fetchRules_settled_def showMessage_frame)
  then show "(base_rules_body (fetchRules_settled lc response st) = None)
               = (base_rules_body st = None)"
    and "(additional_rules_body (fetchRules_settled lc response st) = None)
           = (additional_rules_body st = None)"
    by simp_all
qed

text \<open>
  Every event but the settling of a successful fetch leaves \<open>allRules\<close> as it is, and no
  event adds or removes a table body.
\<close>

lemma step_allRules:
  assumes "\<And>rules. e \<noteq> FetchRulesSettled (RulesOk rules)"
  shows "allRules (step lc e st) = allRules st"
proof (cases e)
  case (FetchRulesSettled response)
  show ?thesis
  proof (cases response)
    case (RulesOk rules)
    with FetchRulesSettled assms show ?thesis by blast
  next
    case (RulesNotOk m)
    with FetchRulesSettled show ?thesis
      by (simp add: step_def fetchRules_settled_allRules)
  next
    case (RulesRejected err)
    with FetchRulesSettled show ?thesis
      by (simp add: step_def fetchRules_settled_allRules)
  qed
next
  case (AddRow isBase)
  then show ?thesis
    by (cases "addRow isBase st") (simp_all add: step_def addRow_frame)
qed (simp_all add: step_def fetchRules_def saveAllChanges_frame deleteRule_frame
       deleteRule_settled_frame hideConfirmationModal_def edit_row_frame split: option.splits)

lemma step_bodies:
  "(base_rules_body (step lc e st) = None) = (base_rules_body st = None)
   \<and> (additional_rules_body (step lc e st) = None) = (additional_rules_body st = None)"
proof (cases e)
  case (AddRow isBase)
  then show ?thesis
    by (cases "addRow isBase st") (simp_all add: step_def addRow_frame)
qed (simp_all add: step_def fetchRules_def saveAllChanges_frame deleteRule_frame
       deleteRule_settled_frame hideConfirmationModal_def edit_row_frame
       fetchRules_settled_bodies split: option.splits)

lemma step_fetch_ok:
  "allRules (step lc (FetchRulesSettled (RulesOk rules)) st) =
     (if base_rules_body st \<noteq> None \<and> additional_rules_body st \<noteq> None
      then array_sort (compareRules lc) rules else rules)"
  by (simp add: step_def fetchRules_settled_allRules)


section \<open>Invariants of the page\<close>

lemma run_bodies:
  "(base_rules_body (run lc events st) = None) = (base_rules_body st = None)
   \<and> (additional_rules_body (run lc events st) = None) = (additional_rules_body st = None)"
proof (induction events arbitrary: st)
  case Nil
  then show ?case by simp
next
  case (Cons e events)
  then show ?case using step_bodies [of lc e st] by simp
qed

text \<open>Every rule of \<open>allRules\<close> was there at the start or came with a successful response.\<close>

lemma step_allRules_origin:
  "set (allRules (step lc e st)) \<subseteq> set (allRules st) \<union> set (fetched_rules e)"
proof (cases "\<exists>rules. e = FetchRulesSettled (RulesOk rules)")
  case True
  then obtain rules where e: "e = FetchRulesSettled (RulesOk rules)" by blast
  have "set (allRules (step lc e st)) = set rules"
    unfolding e step_fetch_ok by (simp add: set_array_sort)
  then show ?thesis by (simp add: e fetched_rules_def)
next
  case False
  then have "allRules (step lc e st) = allRules st"
    using step_allRules [of e lc st] by blast
  then show ?thesis by simp
qed

lemma run_allRules_origin:
  "set (allRules (run lc events st)) \<subseteq> set (allRules st) \<union> (\<Union>e \<in> set events. set (fetched_rules e))"
proof (induction events arbitrary: st)
  case Nil
  then show ?case by simp
next
  case (Cons e events)
  have "set (allRules (run lc events (step lc e st)))
          \<subseteq> set (allRules (step lc e st)) \<union> (\<Union>e \<in> set events. set (fetched_rules e))"
    by (rule Cons.IH)
  with step_allRules_origin [of lc e st] show ?case by auto
qed

text \<open>
  On a page with both table bodies, \<open>allRules\<close> stays in the canonical order as long as
  no response holds a role named like a member of \<open>Object.prototype\<close>.
\<close>

lemma step_sorted:
  assumes "collation lc"
    and "\<forall>r \<in> set (fetched_rules e). field_role r \<notin> set Object_prototype_members"
    and "base_rules_body st \<noteq> None" and "additional_rules_body st \<noteq> None"
    and "sorted_wrt (canonical_le lc) (allRules st)"
  shows "sorted_wrt (canonical_le lc) (allRules (step lc e st))"
proof (cases "\<exists>rules. e = FetchRulesSettled (RulesOk rules)")
  case True
  then obtain rules where e: "e = FetchRulesSettled (RulesOk rules)" by blast
  with assms(2) have "\<forall>r \<in> set rules. field_role r \<notin> set Object_prototype_members"
    by (simp add: fetched_rules_def)
  then have "sorted_wrt (canonical_le lc) (array_sort (compareRules lc) rules)"
    by (rule sorted_canonical [OF assms(1)])
  then show ?thesis
    unfolding e step_fetch_ok using assms(3,4) by simp
next
  case False
  then have "allRules (step lc e st) = allRules st"
    using step_allRules [of e lc st] by blast
  with assms(5) show ?thesis by simp
qed

lemma run_sorted:
  assumes "collation lc"
    and "\<forall>e \<in> set events. \<forall>r \<in> set (fetched_rules e). field_role r \<notin> set Object_prototype_members"
    and "base_rules_body st \<noteq> None" and "additional_rules_body st \<noteq> None"
    and "sorted_wrt (canonical_le lc) (allRules st)"
  shows "sorted_wrt (canonical_le lc) (allRules (run lc events st))"
  using assms(2-5)
proof (induction events arbitrary: st)
  case Nil
  then show ?case by simp
next
  case (Cons e events)
  have "sorted_wrt (canonical_le lc) (allRules (step lc e st))"
    using step_sorted [OF assms(1), of e st] Cons.prems by simp
  moreover have "base_rules_body (step lc e st) \<noteq> None" "additional_rules_body (step lc e st) \<noteq> None"
    using step_bodies [of lc e st] Cons.prems by simp_all
  ultimately show ?case using Cons.IH [of "step lc e st"] Cons.prems(1) by simp
qed

text \<open>A kind that stands in the stored, comma-separated kinds occurs in the string.\<close>

lemma includes_str_empty: "includes_str s []"
  by (cases s) simp_all


lemma split_comma_first:
  "\<exists>w ws. split_comma s = w # ws \<and> startsWith s w"
proof (induction s)
  case Nil
  then show ?case by simp
next
  case (Cons c cs)
  then obtain w ws where "split_comma cs = w # ws" "startsWith cs w" by blast
  then show ?case by simp
qed

lemma split_comma_includes:
  "p \<in> set (split_comma s) \<Longrightarrow> includes_str s p"
proof (induction s arbitrary: p)
  case Nil
  then show ?case by simp
next
  case (Cons c cs)
  obtain w ws where w: "split_comma cs = w # ws" "startsWith cs w"
    using split_comma_first [of cs] by blast
  show ?case
  proof (cases "c = CHR '',''")
    case True
    with Cons.prems have "p = [] \<or> p \<in> set (split_comma cs)" by simp
    then show ?thesis
    proof
      assume "p = []"
      then show ?thesis by simp
    next
      assume "p \<in> set (split_comma cs)"
      then have "includes_str cs p" by (rule Cons.IH)
      then show ?thesis by simp
    qed
  next
    case False
    with Cons.prems w have "p = c # w \<or> p \<in> set ws" by simp
    then show ?thesis
    proof
      assume "p = c # w"
      with w(2) show ?thesis by simp
    next
      assume "p \<in> set ws"
      with w(1) have "p \<in> set (split_comma cs)" by simp
      then have "includes_str cs p" by (rule Cons.IH)
      then show ?thesis by simp
    qed
  qed
qed

lemma linkableRules_member:
  assumes "c \<in> set (linkableRules store (Some x))"
  shows "c \<in> set store" and "rule_id c \<noteq> x" and "''Link'' \<notin> set (selectedSourceTypesArray c)"
proof -
  from assms show "c \<in> set store" and "rule_id c \<noteq> x"
    by (simp_all add: linkableRules_def Let_def)
  from assms have n: "\<not> (case source_type_options c of
                           Some s \<Rightarrow> s \<noteq> [] \<and> includes_str s ''Link''
                         | None \<Rightarrow> False)"
    by (simp add: linkableRules_def Let_def)
  show "''Link'' \<notin> set (selectedSourceTypesArray c)"
  proof
    assume a: "''Link'' \<in> set (selectedSourceTypesArray c)"
    then obtain s where s: "source_type_options c = Some s" "s \<noteq> []" "''Link'' \<in> set (split_comma s)"
      by (cases "source_type_options c")
         (auto simp: selectedSourceTypesArray_def split: if_splits)
    from s(3) have "includes_str s ''Link''" by (rule split_comma_includes)
    with s n show False by simp
  qed
qed


section \<open>Properties of the payload\<close>

text \<open>
  Claim C1. For a row whose \<open>is_base_rule\<close> checkbox is checked the payload's
  \<open>is_required\<close> is \<open>true\<close> whatever the \<open>is_required\<close> checkbox holds; for a row whose
  \<open>is_base_rule\<close> checkbox is not checked it is the checked state of the \<open>is_required\<close>
  checkbox (\<open>false\<close> when the row has no such checkbox).
\<close>

theorem getRulePayload_is_required:
  "(is_base_rule_input r \<longrightarrow>
      payload_get (getRulePayload store r) ''is_required'' = Some (JBool True))
   \<and> (\<not> is_base_rule_input r \<longrightarrow>
      payload_get (getRulePayload store r) ''is_required''
        = Some (JBool (case is_required_input r of Some c \<Rightarrow> c | None \<Rightarrow> False)))"
  by (simp add: payload_is_required)

theorem getRulePayload_is_required_witness:
  "is_base_rule_input (blank_row\<lparr>is_base_rule_input := True\<rparr>)
   \<and> is_required_input (blank_row\<lparr>is_base_rule_input := True\<rparr>) = Some False
   \<and> payload_get (getRulePayload [] (blank_row\<lparr>is_base_rule_input := True\<rparr>)) ''is_required''
       = Some (JBool True)
   \<and> \<not> is_base_rule_input (blank_row\<lparr>is_required_input := Some True\<rparr>)
   \<and> payload_get (getRulePayload [] (blank_row\<lparr>is_required_input := Some True\<rparr>)) ''is_required''
       = Some (JBool True)
   \<and> \<not> is_base_rule_input blank_row
   \<and> payload_get (getRulePayload [] blank_row) ''is_required'' = Some (JBool False)"
  using getRulePayload_is_required [of "blank_row\<lparr>is_base_rule_input := True\<rparr>" "[]"]
    getRulePayload_is_required [of "blank_row\<lparr>is_required_input := Some True\<rparr>" "[]"]
    getRulePayload_is_required [of blank_row "[]"]
  by (simp add: blank_row_def)

text \<open>
  Claim C9, as amended. The object \<open>getRulePayload\<close> builds has exactly fourteen
  properties: the thirteen fields of the data model under their names, and
  \<open>rule_type\<close>, which always holds \<open>'user_set'\<close>.
\<close>

theorem getRulePayload_fields:
  "map fst (getRulePayload store r) =
     [''id'', ''rule_name'', ''field_role'', ''destination_field'', ''source_type_options'',
      ''rule_type'', ''is_required'', ''is_hidden'', ''is_base_rule'', ''link_table_lookup'',
      ''link_field_lookup'', ''formula_template'', ''static_value'',
      ''default_transformation'']
   \<and> payload_get (getRulePayload store r) ''rule_type'' = Some (JStr ''user_set'')"
  by (simp add: payload_get_def getRulePayload_def Let_def)

text \<open>
  Claim C9 as stated fails: the payload of a blank row has a property outside the
  thirteen fields of the data model.
\<close>

theorem getRulePayload_fields_counterexample:
  "\<not> set (map fst (getRulePayload [] blank_row))
       \<subseteq> set [''id'', ''rule_name'', ''field_role'', ''destination_field'',
                ''source_type_options'', ''is_required'', ''is_hidden'', ''is_base_rule'',
                ''link_table_lookup'', ''link_field_lookup'', ''formula_template'',
                ''static_value'', ''default_transformation'']"
  by (simp add: getRulePayload_def Let_def)


section \<open>The active source kind and the auxiliary fields\<close>

lemma known_kinds:
  "''CSV'' \<in> set ALL_SOURCE_TYPES" "''CSV Formula'' \<in> set ALL_SOURCE_TYPES"
  "''Text Override'' \<in> set ALL_SOURCE_TYPES" "''Link'' \<in> set ALL_SOURCE_TYPES"
  by (simp_all add: ALL_SOURCE_TYPES_def)

lemma selectedOptions_member:
  assumes "k \<in> set ALL_SOURCE_TYPES"
  shows "(k \<in> set (populateSelect_selectedOptions ALL_SOURCE_TYPES ks)) = (k \<in> set ks)"
  using assms by (simp add: selectedOptions_set)

lemma activeKind_selectedOptions:
  "activeKind (populateSelect_selectedOptions ALL_SOURCE_TYPES ks) = activeKind ks"
  by (simp add: activeKind_def selectedOptions_member known_kinds)

lemma selectedOptions_known:
  "set (populateSelect_selectedOptions ALL_SOURCE_TYPES ks) \<subseteq> set ALL_SOURCE_TYPES"
  by (simp add: selectedOptions_set)

lemma no_known_kind_DashSpan:
  assumes "set sel = {}"
  shows "updateSourceDetailsDisplay store sel f linked cur = DashSpan"
  using assms by (simp add: updateSourceDetailsDisplay_def)

text \<open>
  Claim C3. Let \<open>ks\<close> be the kinds stored with a rule. The source select built from
  them has exactly the known kinds among them selected, and on that selection the editor
  \<open>updateSourceDetailsDisplay\<close> shows is the one of the first kind present in the
  priority Link, CSV Formula, Text Override, CSV. When \<open>ks\<close> holds no known kind (it is
  empty or holds only unrecognized strings) the container shows the dash placeholder.
  The branch tests of \<open>getRulePayload\<close> on the same selection are the membership tests
  of the first three kinds, taken in the same order.
\<close>

theorem source_kind_priority:
  "details_kind
     (updateSourceDetailsDisplay store (populateSelect_selectedOptions ALL_SOURCE_TYPES ks)
        f linked cur) = activeKind ks
   \<and> (set ks \<inter> set ALL_SOURCE_TYPES = {} \<longrightarrow>
        updateSourceDetailsDisplay store (populateSelect_selectedOptions ALL_SOURCE_TYPES ks)
          f linked cur = DashSpan)
   \<and> includes_str (join_comma (populateSelect_selectedOptions ALL_SOURCE_TYPES ks)) ''Link''
       = (''Link'' \<in> set ks)
   \<and> includes_str (join_comma (populateSelect_selectedOptions ALL_SOURCE_TYPES ks)) ''CSV Formula''
       = (''CSV Formula'' \<in> set ks)
   \<and> includes_str (join_comma (populateSelect_selectedOptions ALL_SOURCE_TYPES ks)) ''Text Override''
       = (''Text Override'' \<in> set ks)"
proof -
  let ?sel = "populateSelect_selectedOptions ALL_SOURCE_TYPES ks"
  have known: "set ?sel \<subseteq> set ALL_SOURCE_TYPES"
    by (rule selectedOptions_known)
  have a: "details_kind (updateSourceDetailsDisplay store ?sel f linked cur) = activeKind ks"
    using details_kind_updateSourceDetailsDisplay [OF known] activeKind_selectedOptions by simp
  have b: "set ks \<inter> set ALL_SOURCE_TYPES = {} \<longrightarrow>
             updateSourceDetailsDisplay store ?sel f linked cur = DashSpan"
    using no_known_kind_DashSpan [of ?sel] by (simp add: selectedOptions_set)
  have c: "includes_str (join_comma ?sel) ''Link'' = (''Link'' \<in> set ks)"
    using includes_join_comma [OF known, of "''Link''"]
    by (simp add: selectedOptions_member known_kinds)
  have d: "includes_str (join_comma ?sel) ''CSV Formula'' = (''CSV Formula'' \<in> set ks)"
    using includes_join_comma [OF known, of "''CSV Formula''"]
    by (simp add: selectedOptions_member known_kinds)
  have e: "includes_str (join_comma ?sel) ''Text Override'' = (''Text Override'' \<in> set ks)"
    using includes_join_comma [OF known, of "''Text Override''"]
    by (simp add: selectedOptions_member known_kinds)
  from a b c d e show ?thesis by blast
qed

theorem source_kind_priority_witness:
  "details_kind
     (updateSourceDetailsDisplay [] (populateSelect_selectedOptions ALL_SOURCE_TYPES
        [''CSV'', ''Link'']) None ''null'' None) = Some KLink
   \<and> details_kind
     (updateSourceDetailsDisplay [] (populateSelect_selectedOptions ALL_SOURCE_TYPES
        [''CSV Formula'', ''Text Override'']) None ''null'' None) = Some KCsvFormula
   \<and> details_kind
     (updateSourceDetailsDisplay [] (populateSelect_selectedOptions ALL_SOURCE_TYPES
        []) None ''null'' None) = None
   \<and> set [''Formula'', ''link''] \<inter> set ALL_SOURCE_TYPES = {}
   \<and> updateSourceDetailsDisplay [] (populateSelect_selectedOptions ALL_SOURCE_TYPES
        [''Formula'', ''link'']) None ''null'' None = DashSpan"
proof -
  have h: "set [''Formula'', ''link''] \<inter> set ALL_SOURCE_TYPES = {}"
    by (simp add: ALL_SOURCE_TYPES_def)
  have k: "activeKind [''CSV'', ''Link''] = Some KLink"
    "activeKind [''CSV Formula'', ''Text Override''] = Some KCsvFormula"
    "activeKind [] = None"
    by (simp_all add: activeKind_def)
  show ?thesis
    using h k
      source_kind_priority [of "[]" "[''CSV'', ''Link'']" None "''null''" None]
      source_kind_priority [of "[]" "[''CSV Formula'', ''Text Override'']" None "''null''" None]
      source_kind_priority [of "[]" "[]" None "''null''" None]
      source_kind_priority [of "[]" "[''Formula'', ''link'']" None "''null''" None]
    by metis
qed

lemma auxiliary_values_known:
  assumes "set sel \<subseteq> set ALL_SOURCE_TYPES"
  shows "auxiliary_values store tr (join_comma sel) =
     (case activeKind sel of
        Some KLink \<Rightarrow>
          (case link_source_select tr of
             Some v \<Rightarrow>
               (if v \<noteq> [] then
                  (case find (\<lambda>x. rule_id x = v) store of
                     Some linkedRule \<Rightarrow>
                       (lookup_or_null tableMap (field_role linkedRule),
                        JStr (destination_field linkedRule), JNull, JNull)
                   | None \<Rightarrow> (JNull, JNull, JNull, JNull))
                else (JNull, JNull, JNull, JNull))
           | None \<Rightarrow> (JNull, JNull, JNull, JNull))
      | Some KCsvFormula \<Rightarrow>
          (case formula_input tr of
             Some v \<Rightarrow> (JNull, JNull, str_or_null v, JNull)
           | None \<Rightarrow> (JNull, JNull, JNull, JNull))
      | Some KTextOverride \<Rightarrow>
          (case text_override_input tr of
             Some v \<Rightarrow> (JNull, JNull, JNull, str_or_null v)
           | None \<Rightarrow> (JNull, JNull, JNull, JNull))
      | _ \<Rightarrow> (JNull, JNull, JNull, JNull))"
proof -
  have m: "includes_str (join_comma sel) ''Link'' = (''Link'' \<in> set sel)"
    "includes_str (join_comma sel) ''CSV Formula'' = (''CSV Formula'' \<in> set sel)"
    "includes_str (join_comma sel) ''Text Override'' = (''Text Override'' \<in> set sel)"
    using includes_join_comma [OF assms, of "''Link''"]
      includes_join_comma [OF assms, of "''CSV Formula''"]
      includes_join_comma [OF assms, of "''Text Override''"]
    by simp_all
  show ?thesis
    unfolding auxiliary_values_def m activeKind_def by simp
qed

lemma auxiliary_values_exclusive:
  "auxiliary_values store tr s = (t, f, ft, sv) \<Longrightarrow>
     (ft \<noteq> JNull \<longrightarrow> t = JNull \<and> f = JNull \<and> sv = JNull)
     \<and> (sv \<noteq> JNull \<longrightarrow> t = JNull \<and> f = JNull \<and> ft = JNull)
     \<and> (t \<noteq> JNull \<or> f \<noteq> JNull \<longrightarrow> ft = JNull \<and> sv = JNull)"
  by (auto simp: auxiliary_values_def split: if_splits option.splits)

text \<open>
  Claim C2. In the payload of any row at most one group of auxiliary fields is not
  \<open>null\<close>: the link pointer, \<open>formula_template\<close> or \<open>static_value\<close>. Take a row whose
  source select holds kinds of \<open>ALL_SOURCE_TYPES\<close> (the only options \<open>createRuleRow\<close>
  puts in it), whatever editor its container holds. The active kind is the one whose
  editor \<open>updateSourceDetailsDisplay\<close> shows for the selection. In the payload, the link
  pointer is \<open>null\<close> unless the active kind is Link, \<open>formula_template\<close> is \<open>null\<close>
  unless it is CSV Formula, and \<open>static_value\<close> is \<open>null\<close> unless it is Text Override;
  under CSV Formula the template is read from the formula input and under Text Override
  the value from the text input.
\<close>

theorem getRulePayload_auxiliary_fields:
  "(payload_get (getRulePayload store tr) ''formula_template'' \<noteq> Some JNull \<longrightarrow>
      payload_get (getRulePayload store tr) ''link_table_lookup'' = Some JNull
      \<and> payload_get (getRulePayload store tr) ''link_field_lookup'' = Some JNull
      \<and> payload_get (getRulePayload store tr) ''static_value'' = Some JNull)
   \<and> (payload_get (getRulePayload store tr) ''static_value'' \<noteq> Some JNull \<longrightarrow>
      payload_get (getRulePayload store tr) ''link_table_lookup'' = Some JNull
      \<and> payload_get (getRulePayload store tr) ''link_field_lookup'' = Some JNull
      \<and> payload_get (getRulePayload store tr) ''formula_template'' = Some JNull)
   \<and> (set (source_type_options_select tr) \<subseteq> set ALL_SOURCE_TYPES \<longrightarrow>
        details_kind
           (updateSourceDetailsDisplay store (source_type_options_select tr) f linked cur)
           = activeKind (source_type_options_select tr)
     \<and> (activeKind (source_type_options_select tr) \<noteq> Some KLink \<longrightarrow>
          payload_get (getRulePayload store tr) ''link_table_lookup'' = Some JNull
          \<and> payload_get (getRulePayload store tr) ''link_field_lookup'' = Some JNull)
     \<and> (activeKind (source_type_options_select tr) \<noteq> Some KCsvFormula \<longrightarrow>
          payload_get (getRulePayload store tr) ''formula_template'' = Some JNull)
     \<and> (activeKind (source_type_options_select tr) \<noteq> Some KTextOverride \<longrightarrow>
          payload_get (getRulePayload store tr) ''static_value'' = Some JNull)
     \<and> (activeKind (source_type_options_select tr) = Some KCsvFormula \<longrightarrow>
          payload_get (getRulePayload store tr) ''formula_template''
            = Some (case formula_input tr of Some v \<Rightarrow> str_or_null v | None \<Rightarrow> JNull))
     \<and> (activeKind (source_type_options_select tr) = Some KTextOverride \<longrightarrow>
          payload_get (getRulePayload store tr) ''static_value''
            = Some (case text_override_input tr of Some v \<Rightarrow> str_or_null v | None \<Rightarrow> JNull)))"
proof -
  let ?k = "activeKind (source_type_options_select tr)"
  obtain t fl ft sv where
    av: "auxiliary_values store tr (join_comma (source_type_options_select tr)) = (t, fl, ft, sv)"
    by (cases "auxiliary_values store tr (join_comma (source_type_options_select tr))") auto
  have p: "payload_get (getRulePayload store tr) ''link_table_lookup'' = Some t"
    "payload_get (getRulePayload store tr) ''link_field_lookup'' = Some fl"
    "payload_get (getRulePayload store tr) ''formula_template'' = Some ft"
    "payload_get (getRulePayload store tr) ''static_value'' = Some sv"
    by (simp_all add: payload_auxiliary av)
  have e1: "ft \<noteq> JNull \<longrightarrow> t = JNull \<and> fl = JNull \<and> sv = JNull"
    and e2: "sv \<noteq> JNull \<longrightarrow> t = JNull \<and> fl = JNull \<and> ft = JNull"
    using auxiliary_values_exclusive [OF av] by blast+
  have x1: "payload_get (getRulePayload store tr) ''formula_template'' \<noteq> Some JNull \<longrightarrow>
      payload_get (getRulePayload store tr) ''link_table_lookup'' = Some JNull
      \<and> payload_get (getRulePayload store tr) ''link_field_lookup'' = Some JNull
      \<and> payload_get (getRulePayload store tr) ''static_value'' = Some JNull"
    unfolding p option.inject using e1 .
  have x2: "payload_get (getRulePayload store tr) ''static_value'' \<noteq> Some JNull \<longrightarrow>
      payload_get (getRulePayload store tr) ''link_table_lookup'' = Some JNull
      \<and> payload_get (getRulePayload store tr) ''link_field_lookup'' = Some JNull
      \<and> payload_get (getRulePayload store tr) ''formula_template'' = Some JNull"
    unfolding p option.inject using e2 .
  have known: "set (source_type_options_select tr) \<subseteq> set ALL_SOURCE_TYPES \<longrightarrow>
        details_kind
           (updateSourceDetailsDisplay store (source_type_options_select tr) f linked cur) = ?k
     \<and> (?k \<noteq> Some KLink \<longrightarrow>
          payload_get (getRulePayload store tr) ''link_table_lookup'' = Some JNull
          \<and> payload_get (getRulePayload store tr) ''link_field_lookup'' = Some JNull)
     \<and> (?k \<noteq> Some KCsvFormula \<longrightarrow>
          payload_get (getRulePayload store tr) ''formula_template'' = Some JNull)
     \<and> (?k \<noteq> Some KTextOverride \<longrightarrow>
          payload_get (getRulePayload store tr) ''static_value'' = Some JNull)
     \<and> (?k = Some KCsvFormula \<longrightarrow>
          payload_get (getRulePayload store tr) ''formula_template''
            = Some (case formula_input tr of Some v \<Rightarrow> str_or_null v | None \<Rightarrow> JNull))
     \<and> (?k = Some KTextOverride \<longrightarrow>
          payload_get (getRulePayload store tr) ''static_value''
            = Some (case text_override_input tr of Some v \<Rightarrow> str_or_null v | None \<Rightarrow> JNull))"
  proof
    assume wf: "set (source_type_options_select tr) \<subseteq> set ALL_SOURCE_TYPES"
    note aux = auxiliary_values_known [OF wf, of store tr]
    have a: "details_kind
               (updateSourceDetailsDisplay store (source_type_options_select tr) f linked cur) = ?k"
      by (rule details_kind_updateSourceDetailsDisplay [OF wf])
    have b: "?k \<noteq> Some KLink \<longrightarrow>
               payload_get (getRulePayload store tr) ''link_table_lookup'' = Some JNull
               \<and> payload_get (getRulePayload store tr) ''link_field_lookup'' = Some JNull"
      unfolding payload_auxiliary aux
      by (simp split: option.splits source_kind.splits)
    have c: "?k \<noteq> Some KCsvFormula \<longrightarrow>
               payload_get (getRulePayload store tr) ''formula_template'' = Some JNull"
      unfolding payload_auxiliary aux
      by (simp split: option.splits source_kind.splits)
    have d: "?k \<noteq> Some KTextOverride \<longrightarrow>
               payload_get (getRulePayload store tr) ''static_value'' = Some JNull"
      unfolding payload_auxiliary aux
      by (simp split: option.splits source_kind.splits)
    have e: "?k = Some KCsvFormula \<longrightarrow>
               payload_get (getRulePayload store tr) ''formula_template''
                 = Some (case formula_input tr of Some v \<Rightarrow> str_or_null v | None \<Rightarrow> JNull)"
      unfolding payload_auxiliary aux
      by (simp split: option.splits)
    have g: "?k = Some KTextOverride \<longrightarrow>
               payload_get (getRulePayload store tr) ''static_value''
                 = Some (case text_override_input tr of Some v \<Rightarrow> str_or_null v | None \<Rightarrow> JNull)"
      unfolding payload_auxiliary aux
      by (simp split: option.splits)
    from a b c d e g show "details_kind
           (updateSourceDetailsDisplay store (source_type_options_select tr) f linked cur) = ?k
     \<and> (?k \<noteq> Some KLink \<longrightarrow>
          payload_get (getRulePayload store tr) ''link_table_lookup'' = Some JNull
          \<and> payload_get (getRulePayload store tr) ''link_field_lookup'' = Some JNull)
     \<and> (?k \<noteq> Some KCsvFormula \<longrightarrow>
          payload_get (getRulePayload store tr) ''formula_template'' = Some JNull)
     \<and> (?k \<noteq> Some KTextOverride \<longrightarrow>
          payload_get (getRulePayload store tr) ''static_value'' = Some JNull)
     \<and> (?k = Some KCsvFormula \<longrightarrow>
          payload_get (getRulePayload store tr) ''formula_template''
            = Some (case formula_input tr of Some v \<Rightarrow> str_or_null v | None \<Rightarrow> JNull))
     \<and> (?k = Some KTextOverride \<longrightarrow>
          payload_get (getRulePayload store tr) ''static_value''
            = Some (case text_override_input tr of Some v \<Rightarrow> str_or_null v | None \<Rightarrow> JNull))"
      by (intro conjI)
  qed
  from x1 x2 known show ?thesis by (intro conjI)
qed

theorem getRulePayload_auxiliary_fields_witness:
  "set (source_type_options_select (row_with [''CSV'', ''Link''] (FormulaInput ''{Col1}'' [])))
     \<subseteq> set ALL_SOURCE_TYPES
   \<and> activeKind (source_type_options_select (row_with [''CSV'', ''Link''] (FormulaInput ''{Col1}'' [])))
       = Some KLink
   \<and> payload_get (getRulePayload [] (row_with [''CSV'', ''Link''] (FormulaInput ''{Col1}'' [])))
       ''formula_template'' = Some JNull
   \<and> payload_get (getRulePayload [] (row_with [''CSV'', ''Link''] (FormulaInput ''{Col1}'' [])))
       ''static_value'' = Some JNull
   \<and> set (source_type_options_select
        (row_with [''CSV Formula'', ''Text Override''] (FormulaInput ''{Col1}'' [])))
     \<subseteq> set ALL_SOURCE_TYPES
   \<and> activeKind (source_type_options_select
        (row_with [''CSV Formula'', ''Text Override''] (FormulaInput ''{Col1}'' [])))
       = Some KCsvFormula
   \<and> payload_get (getRulePayload []
        (row_with [''CSV Formula'', ''Text Override''] (FormulaInput ''{Col1}'' [])))
       ''formula_template'' = Some (JStr ''{Col1}'')
   \<and> payload_get (getRulePayload []
        (row_with [''CSV Formula'', ''Text Override''] (FormulaInput ''{Col1}'' [])))
       ''static_value'' = Some JNull
   \<and> payload_get (getRulePayload []
        (row_with [''CSV Formula'', ''Text Override''] (FormulaInput ''{Col1}'' [])))
       ''link_table_lookup'' = Some JNull
   \<and> payload_get (getRulePayload []
        (row_with [''CSV Formula'', ''Text Override''] (FormulaInput ''{Col1}'' [])))
       ''link_field_lookup'' = Some JNull"
proof -
  let ?a = "row_with [''CSV'', ''Link''] (FormulaInput ''{Col1}'' [])"
  let ?b = "row_with [''CSV Formula'', ''Text Override''] (FormulaInput ''{Col1}'' [])"
  have ha: "set (source_type_options_select ?a) \<subseteq> set ALL_SOURCE_TYPES"
    by (simp add: row_with_def ALL_SOURCE_TYPES_def)
  have hb: "set (source_type_options_select ?b) \<subseteq> set ALL_SOURCE_TYPES"
    by (simp add: row_with_def ALL_SOURCE_TYPES_def)
  have ka: "activeKind (source_type_options_select ?a) = Some KLink"
    by (simp add: row_with_def activeKind_def)
  have kb: "activeKind (source_type_options_select ?b) = Some KCsvFormula"
    by (simp add: row_with_def activeKind_def)
  have fb: "(case formula_input ?b of Some v \<Rightarrow> str_or_null v | None \<Rightarrow> JNull) = JStr ''{Col1}''"
    by (simp add: row_with_def formula_input_def str_or_null_def)
  show ?thesis
    using ha hb ka kb fb
      getRulePayload_auxiliary_fields [of "[]" ?a None "''null''" None]
      getRulePayload_auxiliary_fields [of "[]" ?b None "''null''" None]
    by simp
qed


section \<open>The mutability policy\<close>

text \<open>
  Claim C4. A rule counts as a base rule when its row stands in the base table. The
  \<open>is_base_rule\<close> field is editable exactly when the override is active; the
  \<open>is_required\<close> field is editable exactly when the rule is not a base rule; every
  other element of a row is editable unless the rule is a base rule and the override is
  inactive. \<open>toggleBaseRuleEditability\<close> gives every element of every row of both
  tables the \<open>disabled\<close> flag that is the negation of this, the rows of the base table
  as base rules and the rows of the additional table as additional ones.
\<close>

theorem field_editability:
  "isFieldEditable (Some ''is_base_rule'') isBaseRow isOverrideActive = isOverrideActive
   \<and> isFieldEditable (Some ''is_required'') isBaseRow isOverrideActive = (\<not> isBaseRow)
   \<and> (field \<noteq> Some ''is_base_rule'' \<and> field \<noteq> Some ''is_required'' \<longrightarrow>
        isFieldEditable field isBaseRow isOverrideActive
          = (\<not> (isBaseRow \<and> \<not> isOverrideActive)))
   \<and> toggleBaseRuleEditability st =
       map (\<lambda>r. map (\<lambda>fld. (fld, \<not> isFieldEditable fld True
                                  (case chk_super_admin st of Some c \<Rightarrow> c | None \<Rightarrow> False)))
                  (row_elements r))
         (case base_rules_body st of Some rs \<Rightarrow> rs | None \<Rightarrow> [])
       @ map (\<lambda>r. map (\<lambda>fld. (fld, \<not> isFieldEditable fld False
                                    (case chk_super_admin st of Some c \<Rightarrow> c | None \<Rightarrow> False)))
                    (row_elements r))
           (case additional_rules_body st of Some rs \<Rightarrow> rs | None \<Rightarrow> [])"
  by (simp add: toggleBaseRuleEditability_def isFieldEditable_def element_disabled_def Let_def)

theorem field_editability_witness:
  "Some ''rule_name'' \<noteq> Some ''is_base_rule'' \<and> Some ''rule_name'' \<noteq> Some ''is_required''
   \<and> \<not> isFieldEditable (Some ''rule_name'') True False
   \<and> isFieldEditable (Some ''rule_name'') True True
   \<and> isFieldEditable (Some ''rule_name'') False False
   \<and> \<not> isFieldEditable (Some ''is_required'') True True
   \<and> isFieldEditable (Some ''is_required'') False False
   \<and> \<not> isFieldEditable (Some ''is_base_rule'') False False
   \<and> isFieldEditable (Some ''is_base_rule'') True True"
proof -
  have h: "Some ''rule_name'' \<noteq> Some ''is_base_rule''" "Some ''rule_name'' \<noteq> Some ''is_required''"
    by simp_all
  show ?thesis
    using h
      field_editability [of True False "Some ''rule_name''" "two_row_page False"]
      field_editability [of True True "Some ''rule_name''" "two_row_page True"]
      field_editability [of False False "Some ''rule_name''" "two_row_page False"]
    by simp
qed


section \<open>The link resolver\<close>

text \<open>
  Claim C6, as amended. Let a row source via Link and let its picker hold the id of the
  rule \<open>r\<close> of the store (the rule \<open>find\<close> returns for that id). If the role of \<open>r\<close>
  is one of header, item, line and account, its destination field is not empty, and
  every rule of the store with the role and destination field of \<open>r\<close> has the id of
  \<open>r\<close>, then for a rule stored with the table and field pointer of the row's payload the
  reverse lookup of \<open>createRuleRow\<close> returns the id of \<open>r\<close>.
\<close>

theorem link_round_trip:
  assumes sel: "includes_str (join_comma (source_type_options_select tr)) ''Link''"
    and picker: "link_source_select tr = Some v" "v \<noteq> []"
    and target: "find (\<lambda>x. rule_id x = v) store = Some r"
    and role: "field_role r \<in> {''header'', ''item'', ''line'', ''account''}"
    and dest: "destination_field r \<noteq> []"
    and unique: "\<forall>x \<in> set store. field_role x = field_role r
                   \<and> destination_field x = destination_field r \<longrightarrow> rule_id x = rule_id r"
    and saved: "payload_get (getRulePayload store tr) ''link_table_lookup''
                  = Some (jsval_of (link_table_lookup saved))"
               "payload_get (getRulePayload store tr) ''link_field_lookup''
                  = Some (jsval_of (link_field_lookup saved))"
  shows "currentLinkedRuleId store saved = Some (rule_id r)"
proof -
  from role obtain t where t: "t \<noteq> []" "lookup_or_null tableMap (field_role r) = JStr t"
      "obj_get tableMap_reverse t = Own (field_role r)"
    using tableMap_round_trip by blast
  have aux: "auxiliary_values store tr (join_comma (source_type_options_select tr))
               = (JStr t, JStr (destination_field r), JNull, JNull)"
    using sel picker target t(2) by (simp add: auxiliary_values_def)
  have s1: "link_table_lookup saved = Some t"
    using saved(1) aux
    by (cases "link_table_lookup saved") (simp_all add: payload_auxiliary jsval_of_def)
  have s2: "link_field_lookup saved = Some (destination_field r)"
    using saved(2) aux
    by (cases "link_field_lookup saved") (simp_all add: payload_auxiliary jsval_of_def)
  from target have rin: "r \<in> set store"
    unfolding find_Some_iff by (metis nth_mem)
  let ?P = "\<lambda>x. obj_get tableMap_reverse t = Own (field_role x)
                 \<and> destination_field x = destination_field r"
  have "?P r" using t(3) by simp
  with rin have "find ?P store \<noteq> None"
    unfolding find_None_iff by blast
  then obtain y where y: "find ?P store = Some y" by blast
  then have yin: "y \<in> set store" and yP: "?P y"
    unfolding find_Some_iff by (metis nth_mem)+
  from yP t(3) have "field_role y = field_role r" by simp
  with unique yin yP have "rule_id y = rule_id r" by blast
  with y s1 s2 t(1) dest show ?thesis
    by (simp add: currentLinkedRuleId_def)
qed

theorem link_round_trip_witness:
  "includes_str (join_comma (source_type_options_select (link_row ''1''))) ''Link''
   \<and> link_source_select (link_row ''1'') = Some ''1'' \<and> ''1'' \<noteq> []
   \<and> find (\<lambda>x. rule_id x = ''1'')
        [csv_rule ''1'' ''header'' ''id'' ''A'', csv_rule ''2'' ''line'' ''id'' ''B'']
       = Some (csv_rule ''1'' ''header'' ''id'' ''A'')
   \<and> field_role (csv_rule ''1'' ''header'' ''id'' ''A'') \<in> {''header'', ''item'', ''line'', ''account''}
   \<and> destination_field (csv_rule ''1'' ''header'' ''id'' ''A'') \<noteq> []
   \<and> payload_get
        (getRulePayload [csv_rule ''1'' ''header'' ''id'' ''A'', csv_rule ''2'' ''line'' ''id'' ''B'']
           (link_row ''1'')) ''link_table_lookup''
       = Some (jsval_of (link_table_lookup (link_rule ''7'' (Some ''supplier_invoice_headers'') (Some ''id''))))
   \<and> payload_get
        (getRulePayload [csv_rule ''1'' ''header'' ''id'' ''A'', csv_rule ''2'' ''line'' ''id'' ''B'']
           (link_row ''1'')) ''link_field_lookup''
       = Some (jsval_of (link_field_lookup (link_rule ''7'' (Some ''supplier_invoice_headers'') (Some ''id''))))
   \<and> currentLinkedRuleId [csv_rule ''1'' ''header'' ''id'' ''A'', csv_rule ''2'' ''line'' ''id'' ''B'']
        (link_rule ''7'' (Some ''supplier_invoice_headers'') (Some ''id''))
       = Some (rule_id (csv_rule ''1'' ''header'' ''id'' ''A''))"
proof -
  let ?r = "csv_rule ''1'' ''header'' ''id'' ''A''"
  let ?store = "[?r, csv_rule ''2'' ''line'' ''id'' ''B'']"
  let ?saved = "link_rule ''7'' (Some ''supplier_invoice_headers'') (Some ''id'')"
  have h1: "includes_str (join_comma (source_type_options_select (link_row ''1''))) ''Link''"
    by code_simp
  have h2: "link_source_select (link_row ''1'') = Some ''1''"
    by code_simp
  have h3: "''1'' \<noteq> []"
    by simp
  have h4: "find (\<lambda>x. rule_id x = ''1'') ?store = Some ?r"
    by (simp add: csv_rule_def)
  have h5: "field_role ?r \<in> {''header'', ''item'', ''line'', ''account''}"
    by (simp add: csv_rule_def)
  have h6: "destination_field ?r \<noteq> []"
    by (simp add: csv_rule_def)
  have h7: "\<forall>x \<in> set ?store. field_role x = field_role ?r
              \<and> destination_field x = destination_field ?r \<longrightarrow> rule_id x = rule_id ?r"
    by (simp add: csv_rule_def)
  have h8: "payload_get (getRulePayload ?store (link_row ''1'')) ''link_table_lookup''
              = Some (jsval_of (link_table_lookup ?saved))"
    by code_simp
  have h9: "payload_get (getRulePayload ?store (link_row ''1'')) ''link_field_lookup''
              = Some (jsval_of (link_field_lookup ?saved))"
    by code_simp
  note rt = link_round_trip [OF h1 h2 h3 h4 h5 h6 h7 h8 h9]
  from h1 h2 h3 h4 h5 h6 h8 h9 rt show ?thesis
    by blast
qed

text \<open>
  Claim C6 as stated fails for a rule of the role \<open>ignore\<close>, which neither table map
  covers: the store holds that rule alone, the picker holds its id, the payload's table
  pointer is \<open>null\<close> and its field pointer the empty string, and the reverse lookup for
  a rule stored with that pointer finds nothing.
\<close>

theorem link_round_trip_counterexample:
  "find (\<lambda>x. rule_id x = ''1'') [csv_rule ''1'' ''ignore'' [] ''A'']
     = Some (csv_rule ''1'' ''ignore'' [] ''A'')
   \<and> link_source_select (link_row ''1'') = Some ''1''
   \<and> payload_get (getRulePayload [csv_rule ''1'' ''ignore'' [] ''A''] (link_row ''1''))
       ''link_table_lookup'' = Some (jsval_of (link_table_lookup (link_rule ''7'' None (Some []))))
   \<and> payload_get (getRulePayload [csv_rule ''1'' ''ignore'' [] ''A''] (link_row ''1''))
       ''link_field_lookup'' = Some (jsval_of (link_field_lookup (link_rule ''7'' None (Some []))))
   \<and> currentLinkedRuleId [csv_rule ''1'' ''ignore'' [] ''A''] (link_rule ''7'' None (Some []))
       \<noteq> Some (rule_id (csv_rule ''1'' ''ignore'' [] ''A''))"
  by code_simp


section \<open>The canonical order and the linkable candidates\<close>

text \<open>
  What \<open>renderRules\<close> makes of a fetched list whose roles are no member names of
  \<open>Object.prototype\<close>: the same rules, ascending by role order and then by name.
\<close>

lemma renderRules_canonical_order:
  assumes "collation lc"
    and "\<forall>r \<in> set rules. field_role r \<notin> set Object_prototype_members"
  shows "mset (array_sort (compareRules lc) rules) = mset rules
         \<and> sorted_wrt (canonical_le lc) (array_sort (compareRules lc) rules)"
  using sorted_canonical [OF assms] mset_array_sort [of "compareRules lc" rules] by simp

lemma canonical_order_example:
  "map (\<lambda>r. (field_role r, rule_name r))
     (array_sort (compareRules codeCompare)
        [csv_rule ''1'' ''line'' ''id'' ''B'', csv_rule ''2'' ''header'' ''id'' ''A'',
         csv_rule ''3'' ''line'' ''id'' ''A''])
   = [(''header'', ''A''), (''line'', ''A''), (''line'', ''B'')]"
  by code_simp

lemma unknown_role_last_example:
  "map (\<lambda>r. (field_role r, rule_name r))
     (array_sort (compareRules codeCompare)
        [csv_rule ''1'' ''total'' ''id'' ''A'', csv_rule ''2'' ''ignore'' [] ''B''])
   = [(''ignore'', ''B''), (''total'', ''A'')]"
  by code_simp

text \<open>
  Claim C7 at a role named like a member of \<open>Object.prototype\<close>. The role
  \<open>constructor\<close> is outside the known set, so its Schema Registry order is 99 and the
  header rule should come first. \<open>FIELD_ROLE_ORDER['constructor']\<close> is the inherited
  \<open>Object\<close> function, the difference of the orders is \<open>NaN\<close>, and the comparator falls
  back to the names: after the fetch \<open>allRules\<close> holds the rule of the unknown role
  before the header rule.
\<close>

theorem renderRules_inherited_role:
  "''constructor'' \<notin> set ALL_ROLES \<and> ''header'' \<in> set ALL_ROLES
   \<and> roleOrder ''constructor'' = 99 \<and> roleOrder ''header'' = 1
   \<and> field_role_order ''constructor'' = None
   \<and> compareRules codeCompare (csv_rule ''1'' ''constructor'' ''id'' ''A'')
        (csv_rule ''2'' ''header'' ''id'' ''B'') = codeCompare ''A'' ''B''
   \<and> codeCompare ''A'' ''B'' = - 1
   \<and> map (\<lambda>r. (field_role r, rule_name r))
        (allRules (fetchRules_settled codeCompare (RulesOk inherited_role_rules)
           (initial_state False)))
       = [(''constructor'', ''A''), (''header'', ''B'')]"
  by code_simp

text \<open>
  Claim C5, as amended. The linkable candidates offered to the rule of the row with a
  given id are rules of the store other than that rule, none with Link among its own
  source kinds, and they stand in the order of the store: the filter of
  \<open>populateLinkSourceDropdown\<close> does not sort. The store is \<open>allRules\<close>; on a page
  with both table bodies, after any events, it is in the order \<open>renderRules\<close> gave it,
  so there the candidates are ascending by role order and then by name. The latter is
  stated for \<open>localeCompare\<close> a collation and for fetched rules whose roles are no
  member names of \<open>Object.prototype\<close>.
\<close>

theorem linkable_candidates:
  assumes "collation localeCompare"
    and "\<forall>e \<in> set events. \<forall>r \<in> set (fetched_rules e).
           field_role r \<notin> set Object_prototype_members"
  shows "(\<forall>c \<in> set (linkableRules store (Some x)).
            c \<in> set store \<and> rule_id c \<noteq> x \<and> ''Link'' \<notin> set (selectedSourceTypesArray c))
         \<and> subseq (linkableRules store (Some x)) store
         \<and> sorted_wrt (canonical_le localeCompare)
             (linkableRules (allRules (run localeCompare events (initial_state override)))
                (Some y))"
proof -
  have "sorted_wrt (canonical_le localeCompare)
          (allRules (run localeCompare events (initial_state override)))"
    by (rule run_sorted [OF assms]) (simp_all add: initial_state_def)
  then have s: "sorted_wrt (canonical_le localeCompare)
               (linkableRules (allRules (run localeCompare events (initial_state override)))
                  (Some y))"
    unfolding linkableRules_def by (rule sorted_wrt_filter)
  have q: "subseq (linkableRules store (Some x)) store"
    unfolding linkableRules_def by (rule subseq_filter_left)
  have m: "\<forall>c \<in> set (linkableRules store (Some x)).
            c \<in> set store \<and> rule_id c \<noteq> x \<and> ''Link'' \<notin> set (selectedSourceTypesArray c)"
    using linkableRules_member [of _ store x] by blast
  from m q s show ?thesis by (intro conjI)
qed

theorem linkable_candidates_witness:
  "collation codeCompare
   \<and> list_all (\<lambda>r. field_role r \<notin> set Object_prototype_members)
       (concat (map fetched_rules [FetchRulesSettled (RulesOk three_rules), AddRow False]))
   \<and> list_all (\<lambda>c. c \<in> set three_rules \<and> rule_id c \<noteq> ''3''
                   \<and> ''Link'' \<notin> set (selectedSourceTypesArray c))
       (linkableRules three_rules (Some ''3''))
   \<and> subseq (linkableRules three_rules (Some ''3'')) three_rules
   \<and> sorted_wrt (canonical_le codeCompare)
       (linkableRules
          (allRules (run codeCompare [FetchRulesSettled (RulesOk three_rules), AddRow False]
             (initial_state False)))
          (Some ''new_1''))
   \<and> map rule_id
       (linkableRules
          (allRules (run codeCompare [FetchRulesSettled (RulesOk three_rules), AddRow False]
             (initial_state False)))
          (Some ''new_1''))
       = [''3'', ''1'']"
proof -
  let ?events = "[FetchRulesSettled (RulesOk three_rules), AddRow False]"
  have h1: "collation codeCompare"
    by (rule collation_codeCompare)
  have h2: "\<forall>e \<in> set ?events. \<forall>r \<in> set (fetched_rules e).
              field_role r \<notin> set Object_prototype_members"
    by (simp add: fetched_rules_def three_rules_def csv_rule_def link_rule_def
          Object_prototype_members_def)
  have h2': "list_all (\<lambda>r. field_role r \<notin> set Object_prototype_members)
               (concat (map fetched_rules ?events))"
    using h2 by (auto simp: list_all_iff)
  have v: "map rule_id (linkableRules (allRules (run codeCompare ?events (initial_state False)))
             (Some ''new_1'')) = [''3'', ''1'']"
    by code_simp
  note lc = linkable_candidates [OF h1 h2, where store = three_rules and x = "''3''"
      and override = False and y = "''new_1''"]
  from lc have a: "list_all (\<lambda>c. c \<in> set three_rules \<and> rule_id c \<noteq> ''3''
                              \<and> ''Link'' \<notin> set (selectedSourceTypesArray c))
                     (linkableRules three_rules (Some ''3''))"
    unfolding list_all_iff by (rule conjunct1)
  from lc have q: "subseq (linkableRules three_rules (Some ''3'')) three_rules"
    by (rule conjunct1 [OF conjunct2])
  from lc have b: "sorted_wrt (canonical_le codeCompare)
                     (linkableRules (allRules (run codeCompare ?events (initial_state False)))
                        (Some ''new_1''))"
    by (rule conjunct2 [OF conjunct2])
  from h1 h2' a q b v show ?thesis by (intro conjI)
qed

text \<open>
  Claim C5 as stated fails: the candidates are in the order of the store, whatever that
  is. From a store that holds a line rule before a header rule the candidates come out
  in that order, against the role order. \<open>allRules\<close> is such a store on a page without
  the base table body, where \<open>renderRules\<close> returns before it sorts: after a fetch and
  \<open>addRow\<close> the row of the new rule is offered the line rule before the header rule.
\<close>

theorem linkable_candidates_counterexample:
  "map (\<lambda>r. (field_role r, rule_name r)) (linkableRules three_rules (Some ''9''))
     = [(''line'', ''B''), (''header'', ''A'')]
   \<and> roleOrder ''line'' = 3 \<and> roleOrder ''header'' = 1
   \<and> \<not> sorted_wrt (canonical_le codeCompare) (linkableRules three_rules (Some ''9''))
   \<and> allRules (run codeCompare [FetchRulesSettled (RulesOk three_rules), AddRow False]
         page_without_base_body) = three_rules
   \<and> map dataset_id
         (the (additional_rules_body
            (run codeCompare [FetchRulesSettled (RulesOk three_rules), AddRow False]
               page_without_base_body))) = [''new_1'']
   \<and> \<not> sorted_wrt (canonical_le codeCompare)
         (linkableRules
            (allRules (run codeCompare [FetchRulesSettled (RulesOk three_rules), AddRow False]
               page_without_base_body))
            (Some ''new_1''))"
  by code_simp


section \<open>Transient rules\<close>

lemma addRow_succeeds:
  "\<exists>st'. addRow isBase st = Inr st'"
  by (simp add: addRow_def Let_def createRuleRow_def populateDestinationFields_def obj_get_def
        newRule_def ROLE_DESTINATION_FIELDS_def Object_prototype_members_def)

text \<open>
  Claim C10. \<open>addRow\<close> returns normally, counts the new rule and leaves \<open>allRules\<close> as
  it is; so does every event but the settling of a successful fetch. Hence, after any
  events on a freshly loaded page, when no fetched rule carries a transient id (one
  starting with \<open>new_\<close>), no rule offered as a linkable candidate and no rule offered as
  a formula placeholder carries one, whichever row asks.
\<close>

theorem transient_rule_not_offered:
  assumes "\<forall>e \<in> set events. \<forall>r \<in> set (fetched_rules e). \<not> transient_id (rule_id r)"
  shows "(\<exists>st'. addRow isBase st = Inr st' \<and> allRules st' = allRules st
                 \<and> newRuleCounter st' = newRuleCounter st + 1)
         \<and> (\<forall>e. (\<forall>rules. e \<noteq> FetchRulesSettled (RulesOk rules)) \<longrightarrow>
               allRules (step localeCompare e st) = allRules st)
         \<and> (\<forall>c \<in> set (linkableRules
                          (allRules (run localeCompare events (initial_state override))) cur).
               \<not> transient_id (rule_id c))
         \<and> (\<forall>c \<in> set (formulaBuilderRules
                          (allRules (run localeCompare events (initial_state override))) cur).
               \<not> transient_id (rule_id c))"
proof -
  obtain st' where st': "addRow isBase st = Inr st'"
    using addRow_succeeds by blast
  then have "allRules st' = allRules st"
    by (rule addRow_frame)
  moreover from st' have "newRuleCounter st' = newRuleCounter st + 1"
    by (auto simp: addRow_def Let_def split: sum.splits option.splits if_splits)
  ultimately have a: "\<exists>st'. addRow isBase st = Inr st' \<and> allRules st' = allRules st
                        \<and> newRuleCounter st' = newRuleCounter st + 1"
    using st' by blast
  have b: "\<forall>e. (\<forall>rules. e \<noteq> FetchRulesSettled (RulesOk rules)) \<longrightarrow>
             allRules (step localeCompare e st) = allRules st"
    using step_allRules by blast
  let ?all = "allRules (run localeCompare events (initial_state override))"
  have origin: "set ?all \<subseteq> (\<Union>e \<in> set events. set (fetched_rules e))"
    using run_allRules_origin [of localeCompare events "initial_state override"]
    by (simp add: initial_state_def)
  have c: "\<forall>r \<in> set ?all. \<not> transient_id (rule_id r)"
    using origin assms by blast
  have "set (linkableRules ?all cur) \<subseteq> set ?all" "set (formulaBuilderRules ?all cur) \<subseteq> set ?all"
    by (simp_all add: linkableRules_def formulaBuilderRules_def)
  with c have d: "\<forall>r \<in> set (linkableRules ?all cur). \<not> transient_id (rule_id r)"
    and e: "\<forall>r \<in> set (formulaBuilderRules ?all cur). \<not> transient_id (rule_id r)"
    by blast+
  from a b d e show ?thesis by blast
qed

theorem transient_rule_not_offered_witness:
  "list_all (\<lambda>r. \<not> transient_id (rule_id r))
     (concat (map fetched_rules
        [FetchRulesSettled (RulesOk three_rules), AddRow False, AddRow True]))
   \<and> list_all (\<lambda>c. \<not> transient_id (rule_id c))
       (linkableRules
          (allRules (run codeCompare
             [FetchRulesSettled (RulesOk three_rules), AddRow False, AddRow True]
             (initial_state True)))
          (Some ''new_2''))
   \<and> list_all (\<lambda>c. \<not> transient_id (rule_id c))
       (formulaBuilderRules
          (allRules (run codeCompare
             [FetchRulesSettled (RulesOk three_rules), AddRow False, AddRow True]
             (initial_state True)))
          (Some ''new_2''))
   \<and> map (map dataset_id)
       [the (base_rules_body (run codeCompare
               [FetchRulesSettled (RulesOk three_rules), AddRow False, AddRow True]
               (initial_state True))),
        the (additional_rules_body (run codeCompare
               [FetchRulesSettled (RulesOk three_rules), AddRow False, AddRow True]
               (initial_state True)))]
       = [[''new_2''], [''3'', ''1'', ''2'', ''new_1'']]
   \<and> map rule_id
       (allRules (run codeCompare
          [FetchRulesSettled (RulesOk three_rules), AddRow False, AddRow True]
          (initial_state True)))
       = [''3'', ''1'', ''2'']"
proof -
  let ?events = "[FetchRulesSettled (RulesOk three_rules), AddRow False, AddRow True]"
  have h: "\<forall>e \<in> set ?events. \<forall>r \<in> set (fetched_rules e). \<not> transient_id (rule_id r)"
    by (simp add: fetched_rules_def three_rules_def csv_rule_def link_rule_def transient_id_def)
  have h': "list_all (\<lambda>r. \<not> transient_id (rule_id r)) (concat (map fetched_rules ?events))"
    using h by (auto simp: list_all_iff)
  note t = transient_rule_not_offered [OF h, of False "initial_state True" codeCompare True
      "Some ''new_2''"]
  from t have a: "list_all (\<lambda>c. \<not> transient_id (rule_id c))
       (linkableRules (allRules (run codeCompare ?events (initial_state True))) (Some ''new_2''))"
    unfolding list_all_iff by blast
  from t have b: "list_all (\<lambda>c. \<not> transient_id (rule_id c))
       (formulaBuilderRules (allRules (run codeCompare ?events (initial_state True)))
          (Some ''new_2''))"
    unfolding list_all_iff by blast
  have c: "map (map dataset_id)
       [the (base_rules_body (run codeCompare ?events (initial_state True))),
        the (additional_rules_body (run codeCompare ?events (initial_state True)))]
       = [[''new_2''], [''3'', ''1'', ''2'', ''new_1'']]"
    by code_simp
  have d: "map rule_id (allRules (run codeCompare ?events (initial_state True)))
             = [''3'', ''1'', ''2'']"
    by code_simp
  from h' a b c d show ?thesis by (intro conjI)
qed


section \<open>Saving all rows\<close>








end
